theory Spec2Isabelle
  imports Complex_Main "HOL-Library.Sublist"
begin

section \<open>JavaScript values\<close>

text \<open>
  The action is JavaScript. A number is an IEEE double; the action compares numbers and
  renders them in decimal, and both are functions of the exact value of a finite
  double. So \<open>Fin r\<close> stands for the double whose value is \<open>r\<close> (both zeros are
  \<open>Fin 0\<close>), and the three other constructors are the doubles with no real value.
\<close>

datatype jsnum = NaN | PosInf | NegInf | Fin real

text \<open>
  The value of a property of the health API's response: a primitive JSON value, or
  \<open>undefined\<close> when the property is missing.
\<close>

datatype jsval =
    Undefined
  | Null
  | JBool bool
  | JNum jsnum
  | JStr string

text \<open>
  An exception is an Error object: its \<open>name\<close> and its \<open>message\<close>. The action
  reads only \<open>error.message\<close>; the name is what tells a TypeError, an AbortError
  and a plain Error apart.
\<close>

datatype js_error = JsError string string

fun message :: "js_error \<Rightarrow> string" where
  "message (JsError n m) = m"

fun error_name :: "js_error \<Rightarrow> string" where
  "error_name (JsError n m) = n"

text \<open>
  What the JavaScript runtime supplies and the action only calls: \<open>parseFloat\<close>,
  the conversion of a string to a number (\<open>StringToNumber\<close>, used when a string is
  compared with a number), the decimal rendering of a double that is not an integer
  below \<open>2^53\<close> (\<open>Number::toString\<close> picks the shortest digits that read back as the
  same double), and the locale's rendering of a number. They are
  parameters of the model.
\<close>

record js_runtime =
  parseFloat :: "string \<Rightarrow> jsnum"
  stringToNumber :: "string \<Rightarrow> jsnum"
  shortestToString :: "real \<Rightarrow> string"
  numberToLocaleString :: "jsnum \<Rightarrow> string"

subsection \<open>Comparison of numbers\<close>

text \<open>
  \<open>a < b\<close> on doubles: false when either is NaN. \<open>a >= b\<close> is the negation of
  \<open>a < b\<close>, except that it is false as well when either is NaN.
\<close>

fun js_lt :: "jsnum \<Rightarrow> jsnum \<Rightarrow> bool" where
  "js_lt NaN b = False"
| "js_lt a NaN = False"
| "js_lt (Fin a) (Fin b) = (a < b)"
| "js_lt (Fin a) PosInf = True"
| "js_lt (Fin a) NegInf = False"
| "js_lt PosInf b = False"
| "js_lt NegInf NegInf = False"
| "js_lt NegInf b = True"

definition js_ge :: "jsnum \<Rightarrow> jsnum \<Rightarrow> bool" where
  "js_ge a b = (a \<noteq> NaN \<and> b \<noteq> NaN \<and> \<not> js_lt a b)"

subsection \<open>Rendering of numbers\<close>

definition digit_char :: "nat \<Rightarrow> char" where
  "digit_char d = ''0123456789'' ! (d mod 10)"

function show_nat :: "nat \<Rightarrow> string" where
  "show_nat n =
     (if n < 10 then [digit_char n]
      else show_nat (n div 10) @ [digit_char (n mod 10)])"
  by pat_completeness auto
termination
  by (relation "measure (\<lambda>n. n)") auto

text \<open>
  \<open>Number::toString\<close> writes the shortest digits that read back as the same double.
  For an integer of magnitude below \<open>2^53\<close> these are its decimal digits; the
  runtime renders every other finite double.
\<close>

definition numberToString :: "js_runtime \<Rightarrow> jsnum \<Rightarrow> string" where
  "numberToString rt x =
     (case x of
        NaN \<Rightarrow> ''NaN''
      | PosInf \<Rightarrow> ''Infinity''
      | NegInf \<Rightarrow> ''-Infinity''
      | Fin r \<Rightarrow>
          if r = of_int \<lfloor>r\<rfloor> \<and> \<bar>r\<bar> < 2 ^ 53
          then (if r < 0 then ''-'' else []) @ show_nat (nat \<lfloor>\<bar>r\<bar>\<rfloor>)
          else shortestToString rt r)"

text \<open>
  \<open>Number.prototype.toFixed(2)\<close>: a double that is not finite, or of magnitude
  \<open>10^21\<close> or more, is rendered by \<open>Number::toString\<close>. Otherwise the sign, then
  the integer \<open>n\<close> nearest to \<open>100 * |x|\<close> (the larger one on a tie), written in
  full with a point before its last two digits.
\<close>

definition toFixed2 :: "js_runtime \<Rightarrow> jsnum \<Rightarrow> string" where
  "toFixed2 rt x =
     (case x of
        Fin r \<Rightarrow>
          if \<bar>r\<bar> \<ge> 10 ^ 21 then numberToString rt x
          else
            (let n = nat \<lfloor>\<bar>r\<bar> * 100 + 1 / 2\<rfloor>
             in (if r < 0 then ''-'' else []) @ show_nat (n div 100) @ ''.''
                  @ show_nat (n mod 100 div 10) @ show_nat (n mod 10))
      | _ \<Rightarrow> numberToString rt x)"

subsection \<open>Conversions and methods of values\<close>

text \<open>\<open>ToNumber\<close>, applied to an operand that is compared with a number.\<close>

fun toNumber :: "js_runtime \<Rightarrow> jsval \<Rightarrow> jsnum" where
  "toNumber rt Undefined = NaN"
| "toNumber rt Null = Fin 0"
| "toNumber rt (JBool b) = Fin (if b then 1 else 0)"
| "toNumber rt (JNum x) = x"
| "toNumber rt (JStr s) = stringToNumber rt s"

text \<open>\<open>ToString\<close>, applied to a value interpolated in a template literal.\<close>

fun toStr :: "js_runtime \<Rightarrow> jsval \<Rightarrow> string" where
  "toStr rt Undefined = ''undefined''"
| "toStr rt Null = ''null''"
| "toStr rt (JBool b) = (if b then ''true'' else ''false'')"
| "toStr rt (JNum x) = numberToString rt x"
| "toStr rt (JStr s) = s"

definition bindE :: "js_error + 'a \<Rightarrow> ('a \<Rightarrow> js_error + 'b) \<Rightarrow> js_error + 'b" where
  "bindE m f = (case m of Inl e \<Rightarrow> Inl e | Inr x \<Rightarrow> f x)"

text \<open>
  A method call \<open>e.m()\<close> throws a TypeError when \<open>e\<close> is \<open>undefined\<close> or
  \<open>null\<close>, and when \<open>e\<close> has no method \<open>m\<close>: only a number has \<open>toFixed\<close>.
  The message is V8's; \<open>e\<close> is the text of the receiver expression.
\<close>

definition cannot_read :: "string \<Rightarrow> string \<Rightarrow> js_error" where
  "cannot_read what m =
     JsError ''TypeError'' (''Cannot read properties of '' @ what @ '' (reading '' @ [CHR 0x27] @ m @ [CHR 0x27] @ '')'')"

definition not_a_function :: "string \<Rightarrow> string \<Rightarrow> js_error" where
  "not_a_function e m = JsError ''TypeError'' (e @ ''.'' @ m @ '' is not a function'')"

fun toFixed :: "js_runtime \<Rightarrow> string \<Rightarrow> jsval \<Rightarrow> js_error + string" where
  "toFixed rt e Undefined = Inl (cannot_read ''undefined'' ''toFixed'')"
| "toFixed rt e Null = Inl (cannot_read ''null'' ''toFixed'')"
| "toFixed rt e (JNum x) = Inr (toFixed2 rt x)"
| "toFixed rt e (JBool b) = Inl (not_a_function e ''toFixed'')"
| "toFixed rt e (JStr s) = Inl (not_a_function e ''toFixed'')"

fun toLocaleString :: "js_runtime \<Rightarrow> jsval \<Rightarrow> js_error + string" where
  "toLocaleString rt Undefined = Inl (cannot_read ''undefined'' ''toLocaleString'')"
| "toLocaleString rt Null = Inl (cannot_read ''null'' ''toLocaleString'')"
| "toLocaleString rt (JNum x) = Inr (numberToLocaleString rt x)"
| "toLocaleString rt (JBool b) = Inr (toStr rt (JBool b))"
| "toLocaleString rt (JStr s) = Inr s"

fun toString_method :: "js_runtime \<Rightarrow> jsval \<Rightarrow> js_error + string" where
  "toString_method rt Undefined = Inl (cannot_read ''undefined'' ''toString'')"
| "toString_method rt Null = Inl (cannot_read ''null'' ''toString'')"
| "toString_method rt v = Inr (toStr rt v)"

text \<open>\<open>toUpperCase\<close>; the action applies it to a status, which is ASCII.\<close>

definition upper_char :: "char \<Rightarrow> char" where
  "upper_char c =
     (case map_of (zip ''abcdefghijklmnopqrstuvwxyz'' ''ABCDEFGHIJKLMNOPQRSTUVWXYZ'') c of
        None \<Rightarrow> c
      | Some u \<Rightarrow> u)"

definition toUpperCase :: "string \<Rightarrow> string" where
  "toUpperCase s = map upper_char s"

section \<open>The health snapshot\<close>

text \<open>
  The response of \<open>GET /v1/health\<close>, as the action reads it. The parsed body is
  taken to be an object; each property that the action reads as a number or a
  string, of the body and of an entry of \<open>endpoints\<close>, holds a primitive value or
  is missing. (\<open>pending_events\<close> and \<open>period\<close> are never read.)
\<close>

record endpoint =
  ep_name :: jsval
  ep_provider :: jsval
  ep_status :: jsval
  ep_success_rate :: jsval

text \<open>
  An entry of the \<open>endpoints\<close> array: \<open>null\<close>, or a value whose properties read
  as the fields of an \<open>endpoint\<close>. That is an object; a number, a string, a boolean
  and an array are entries too, with none of the four properties.
\<close>

datatype entry = NullEntry | Entry endpoint

text \<open>
  The value of \<open>endpoints\<close>, by what lines 75 and 79 do with it.
  \<^item> \<open>NoEndpoints\<close>: the test of line 75 fails. The property is missing, \<open>null\<close>,
    \<open>false\<close>, \<open>0\<close> or the empty string, or it is a value with no \<open>length\<close>
    above 0 (\<open>true\<close>, another number, an object with no such property).
  \<^item> \<open>Endpoints es\<close>: an array, with its entries in order; the test passes when it
    is not empty. (A string that is not empty passes the test too and is iterated
    by character: one entry with no properties for each.)
  \<^item> \<open>NotIterable\<close>: an object with a \<open>length\<close> above 0. The test passes, and the
    \<open>for ... of\<close> of line 79 throws.
\<close>

datatype endpoints_value = NoEndpoints | Endpoints "entry list" | NotIterable

record snapshot =
  total_events :: jsval
  delivered_events :: jsval
  failed_events :: jsval
  dlq_count :: jsval
  success_rate :: jsval
  endpoints_count :: jsval
  endpoints :: endpoints_value

section \<open>Classification and report (index.js, lines 40 to 90)\<close>

definition determineStatus :: "js_runtime \<Rightarrow> jsval \<Rightarrow> jsval \<Rightarrow> string" where
  "determineStatus rt successRate dlqCount =
     (if js_ge (toNumber rt successRate) (Fin 99) \<and> dlqCount = JNum (Fin 0) then ''healthy''
      else if js_ge (toNumber rt successRate) (Fin 90) then ''degraded''
      else ''unhealthy'')"

definition getStatusEmoji :: "string \<Rightarrow> string" where
  "getStatusEmoji status =
     (if status = ''healthy'' then '':white_check_mark:''
      else if status = ''degraded'' then '':warning:''
      else if status = ''unhealthy'' then '':x:''
      else '':question:'')"

text \<open>
  One row of the endpoints table (lines 80 and 81). The first property read is
  \<open>ep.status\<close>, which throws on a \<open>null\<close> entry.
  \<open>ep.success_rate?.toFixed(2) || 'N/A'\<close> is \<open>N/A\<close> when the rate is
  \<open>undefined\<close> or \<open>null\<close> (the optional chain stops), and when \<open>toFixed\<close>
  returns the empty string.
\<close>

definition endpoint_row :: "js_runtime \<Rightarrow> entry \<Rightarrow> js_error + string" where
  "endpoint_row rt entry =
     (case entry of
        NullEntry \<Rightarrow> Inl (cannot_read ''null'' ''status'')
      | Entry ep \<Rightarrow>
          (let epEmoji = (if ep_status ep = JStr ''active'' then '':green_circle:'' else '':yellow_circle:'')
           in bindE
                (if ep_success_rate ep = Undefined \<or> ep_success_rate ep = Null then Inr ''N/A''
                 else bindE (toFixed rt ''ep.success_rate?'' (ep_success_rate ep))
                        (\<lambda>fixed. Inr (if fixed = [] then ''N/A'' else fixed)))
                (\<lambda>rate. Inr (''| '' @ toStr rt (ep_name ep) @ '' | '' @ toStr rt (ep_provider ep) @ '' | ''
                               @ epEmoji @ '' '' @ toStr rt (ep_status ep) @ '' | '' @ rate
                               @ ''% |\<newline>''))))"

text \<open>The loop of lines 79 to 82: \<open>report\<close> is the accumulated text.\<close>

fun endpoint_rows :: "js_runtime \<Rightarrow> entry list \<Rightarrow> string \<Rightarrow> js_error + string" where
  "endpoint_rows rt [] report = Inr report"
| "endpoint_rows rt (ep # eps) report =
     bindE (endpoint_row rt ep) (\<lambda>row. endpoint_rows rt eps (report @ row))"

text \<open>Lines 75 to 84.\<close>

definition not_iterable :: "string \<Rightarrow> js_error" where
  "not_iterable e = JsError ''TypeError'' (e @ '' is not iterable'')"

definition endpoints_section :: "js_runtime \<Rightarrow> endpoints_value \<Rightarrow> string \<Rightarrow> js_error + string" where
  "endpoints_section rt eps report =
     (case eps of
        NoEndpoints \<Rightarrow> Inr report
      | NotIterable \<Rightarrow> Inl (not_iterable ''stats.endpoints'')
      | Endpoints l \<Rightarrow>
          if length l > 0
          then bindE
                 (endpoint_rows rt l
                    (report @ ''### Endpoints\<newline>\<newline>''
                       @ ''| Name | Provider | Status | Success Rate |\<newline>''
                       @ ''|------|----------|--------|-------------|\<newline>''))
                 (\<lambda>report. Inr (report @ ''\<newline>''))
          else Inr report)"

definition generateReport :: "js_runtime \<Rightarrow> snapshot \<Rightarrow> js_error + string" where
  "generateReport rt stats =
     (let status = determineStatus rt (success_rate stats) (dlq_count stats);
          emoji = getStatusEmoji status
      in bindE (toLocaleString rt (total_events stats)) (\<lambda>total.
         bindE (toLocaleString rt (delivered_events stats)) (\<lambda>delivered.
         bindE (toLocaleString rt (failed_events stats)) (\<lambda>failed.
         bindE (toFixed rt ''stats.success_rate'' (success_rate stats)) (\<lambda>rate.
         bindE (toLocaleString rt (dlq_count stats)) (\<lambda>dlq.
         bindE
           (endpoints_section rt (endpoints stats)
              (''## '' @ emoji @ '' EventDock Webhook Health Report\<newline>\<newline>''
                 @ ''**Status:** '' @ toUpperCase status @ ''\<newline>\<newline>''
                 @ ''### Last 24 Hours\<newline>\<newline>''
                 @ ''| Metric | Value |\<newline>''
                 @ ''|--------|-------|\<newline>''
                 @ ''| Total Events | '' @ total @ '' |\<newline>''
                 @ ''| Delivered | '' @ delivered @ '' |\<newline>''
                 @ ''| Failed | '' @ failed @ '' |\<newline>''
                 @ ''| Success Rate | '' @ rate @ ''% |\<newline>''
                 @ ''| In DLQ | '' @ dlq @ '' |\<newline>''
                 @ ''| Endpoints | '' @ toStr rt (endpoints_count stats) @ '' |\<newline>\<newline>''))
           (\<lambda>report.
              Inr (report @ ''---\<newline>''
                     @ ''*Powered by [EventDock](https://eventdock.app) - Reliable Webhook Infrastructure*\<newline>''))))))))"

section \<open>The surroundings of a run\<close>

text \<open>
  A response of \<open>fetch\<close>: its status, how long the read of its body takes once the
  response is there (in milliseconds), and what \<open>response.text()\<close> and
  \<open>response.json()\<close> settle to (either may reject).
\<close>

record response =
  http_status :: nat
  body_ms :: nat
  body_text :: "js_error + string"
  json :: "js_error + snapshot"

text \<open>
  What the network does with a request that nobody aborts: after how many
  milliseconds \<open>fetch\<close> settles (\<open>None\<close>: never), and whether it settles with a
  rejection (a network failure) or with a response. \<open>fetch\<close> settles with a
  response as soon as the status and the headers are there; the body is read
  afterwards.
\<close>

record exchange =
  settle_ms :: "nat option"
  settled :: "js_error + response"

text \<open>
  What happens to a request that is aborted after a given delay: the delay passes
  while the request is pending (the timer fires), or \<open>fetch\<close> rejects by itself
  before that, or a response arrives before that. A \<open>fetch\<close> that would settle at
  the very instant of the timer counts as aborted.
\<close>

datatype fetch_outcome = TimerFired | Rejected js_error | Responded response

definition race :: "exchange \<Rightarrow> nat \<Rightarrow> fetch_outcome" where
  "race x timeout =
     (case settle_ms x of
        None \<Rightarrow> TimerFired
      | Some t \<Rightarrow>
          if t < timeout then (case settled x of Inl e \<Rightarrow> Rejected e | Inr r \<Rightarrow> Responded r)
          else TimerFired)"

text \<open>A comment of the pull request, as the comment API lists it.\<close>

record comment =
  comment_id :: nat
  author :: string
  body :: string

text \<open>
  Everything a run reads and does not change: the inputs of the step (\<open>inputs env n\<close>
  is what \<open>core.getInput(n)\<close> returns, the empty string for an input that was not
  supplied), the network (\<open>http env url headers\<close> is what it does with a GET
  request), the pull request of the workflow's event
  (\<open>context.payload.pull_request.number\<close>), the user the token belongs to, and
  whether each call of the comment API and the write of the job summary fail.
\<close>

record env =
  inputs :: "string \<Rightarrow> string"
  http :: "string \<Rightarrow> (string \<times> string) list \<Rightarrow> exchange"
  pull_request :: "nat option"
  token_user :: "string \<Rightarrow> string"
  listComments_error :: "js_error option"
  updateComment_error :: "js_error option"
  createComment_error :: "js_error option"
  summary_error :: "js_error option"

text \<open>
  Everything a run changes: the outputs of the step in the order they were set, the
  log, the failure message of \<open>core.setFailed\<close>, the job summary (its heading and
  the rows of its table), and the comments of the pull request in listing order.
\<close>

datatype log_entry = Info string | Warning string | Debug string | ErrorLog string

record state =
  outputs :: "(string \<times> jsval) list"
  logged :: "log_entry list"
  failed :: "string option"
  summary :: "(string \<times> (string \<times> string) list) option"
  comments :: "comment list"

definition start :: "comment list \<Rightarrow> state" where
  "start cs = \<lparr>outputs = [], logged = [], failed = None, summary = None, comments = cs\<rparr>"

subsection \<open>The toolkit: inputs, log, outputs, failure\<close>

definition getInput :: "env \<Rightarrow> string \<Rightarrow> string" where
  "getInput env n = inputs env n"

definition getInput_required :: "env \<Rightarrow> string \<Rightarrow> js_error + string" where
  "getInput_required env n =
     (if inputs env n = [] then Inl (JsError ''Error'' (''Input required and not supplied: '' @ n))
      else Inr (inputs env n))"

definition info :: "string \<Rightarrow> state \<Rightarrow> state" where
  "info m s = s\<lparr>logged := logged s @ [Info m]\<rparr>"

definition warning :: "string \<Rightarrow> state \<Rightarrow> state" where
  "warning m s = s\<lparr>logged := logged s @ [Warning m]\<rparr>"

definition debug :: "string \<Rightarrow> state \<Rightarrow> state" where
  "debug m s = s\<lparr>logged := logged s @ [Debug m]\<rparr>"

definition setOutput :: "string \<Rightarrow> jsval \<Rightarrow> state \<Rightarrow> state" where
  "setOutput k v s = s\<lparr>outputs := outputs s @ [(k, v)]\<rparr>"

definition setFailed :: "string \<Rightarrow> state \<Rightarrow> state" where
  "setFailed m s = s\<lparr>failed := Some m, logged := logged s @ [ErrorLog m]\<rparr>"

section \<open>The health request (index.js, lines 4 to 38)\<close>

definition abort_error :: js_error where
  "abort_error = JsError ''AbortError'' ''This operation was aborted''"

text \<open>
  Lines 4 to 17. \<open>timeout\<close> is the delay of the timer that aborts the request, in
  milliseconds. The abort makes a pending \<open>fetch\<close> reject with the runtime's
  AbortError. The \<open>finally\<close> clears the timer as soon as \<open>fetch\<close> has
  settled: the timer races \<open>fetch\<close> alone, and nothing aborts the read of the body
  that follows.
\<close>

definition fetchWithTimeout ::
  "env \<Rightarrow> string \<Rightarrow> (string \<times> string) list \<Rightarrow> nat \<Rightarrow> js_error + response" where
  "fetchWithTimeout env url headers timeout =
     (case race (http env url headers) timeout of
        TimerFired \<Rightarrow> Inl abort_error
      | Rejected e \<Rightarrow> Inl e
      | Responded r \<Rightarrow> Inr r)"

definition ok :: "response \<Rightarrow> bool" where
  "ok r = (200 \<le> http_status r \<and> http_status r \<le> 299)"

definition request_headers :: "string \<Rightarrow> (string \<times> string) list" where
  "request_headers apiKey =
     [(''Authorization'', ''Bearer '' @ apiKey), (''Content-Type'', ''application/json'')]"

definition healthUrl :: "string \<Rightarrow> string \<Rightarrow> string" where
  "healthUrl apiUrl endpointId =
     (if endpointId \<noteq> [] then apiUrl @ ''/v1/health?endpoint_id='' @ endpointId
      else apiUrl @ ''/v1/health'')"

definition api_error :: "nat \<Rightarrow> string \<Rightarrow> js_error" where
  "api_error code text = JsError ''Error'' (''API request failed: '' @ show_nat code @ '' - '' @ text)"

definition getHealthStats :: "env \<Rightarrow> string \<Rightarrow> string \<Rightarrow> string \<Rightarrow> js_error + snapshot" where
  "getHealthStats env apiUrl apiKey endpointId =
     bindE (fetchWithTimeout env (healthUrl apiUrl endpointId) (request_headers apiKey) 30000)
       (\<lambda>response.
          if \<not> ok response
          then bindE (body_text response) (\<lambda>text. Inl (api_error (http_status response) text))
          else json response)"

section \<open>The pull-request comment (index.js, lines 92 to 132)\<close>

definition marker :: string where
  "marker = ''EventDock Webhook Health Report''"

text \<open>\<open>String.prototype.includes\<close>: \<open>m\<close> occurs in \<open>s\<close> as a substring.\<close>

definition includes_str :: "string \<Rightarrow> string \<Rightarrow> bool" where
  "includes_str s m = sublist m s"

text \<open>
  The comment API, on the comments of the current pull request. A call that fails
  rejects and changes nothing. \<open>listComments\<close>, called as on lines 105 to 109 with no
  page and no page size, returns the first page of the comments: the first 30, in
  listing order. \<open>updateComment\<close> replaces the body of the comment with the given
  id. \<open>createComment\<close> appends a comment under an id that no comment has.
\<close>

definition per_page :: nat where
  "per_page = 30"

definition listComments :: "env \<Rightarrow> state \<Rightarrow> js_error + comment list" where
  "listComments env s =
     (case listComments_error env of
        Some e \<Rightarrow> Inl e
      | None \<Rightarrow> Inr (take per_page (comments s)))"

definition set_body :: "nat \<Rightarrow> string \<Rightarrow> comment list \<Rightarrow> comment list" where
  "set_body cid b cs = map (\<lambda>c. if comment_id c = cid then c\<lparr>body := b\<rparr> else c) cs"

definition updateComment :: "env \<Rightarrow> nat \<Rightarrow> string \<Rightarrow> state \<Rightarrow> (js_error + unit) \<times> state" where
  "updateComment env cid b s =
     (case updateComment_error env of
        Some e \<Rightarrow> (Inl e, s)
      | None \<Rightarrow> (Inr (), s\<lparr>comments := set_body cid b (comments s)\<rparr>))"

definition fresh_id :: "comment list \<Rightarrow> nat" where
  "fresh_id cs = Suc (fold max (map comment_id cs) 0)"

definition createComment :: "env \<Rightarrow> string \<Rightarrow> string \<Rightarrow> state \<Rightarrow> (js_error + unit) \<times> state" where
  "createComment env token b s =
     (case createComment_error env of
        Some e \<Rightarrow> (Inl e, s)
      | None \<Rightarrow>
          (Inr (),
           s\<lparr>comments := comments s
                @ [\<lparr>comment_id = fresh_id (comments s), author = token_user env token, body = b\<rparr>]\<rparr>))"

definition postPRComment :: "env \<Rightarrow> string \<Rightarrow> string \<Rightarrow> state \<Rightarrow> (js_error + unit) \<times> state" where
  "postPRComment env token report s =
     (case pull_request env of
        None \<Rightarrow> (Inr (), info ''Not a pull request, skipping comment'' s)
      | Some prNumber \<Rightarrow>
          (case listComments env s of
             Inl e \<Rightarrow> (Inl e, s)
           | Inr cs \<Rightarrow>
               (case find (\<lambda>c. includes_str (body c) marker) cs of
                  Some botComment \<Rightarrow>
                    (case updateComment env (comment_id botComment) report s of
                       (Inl e, s') \<Rightarrow> (Inl e, s')
                     | (Inr u, s') \<Rightarrow>
                         (Inr (),
                          info (''Updated existing PR comment #'' @ show_nat (comment_id botComment)) s'))
                | None \<Rightarrow>
                    (case createComment env token report s of
                       (Inl e, s') \<Rightarrow> (Inl e, s')
                     | (Inr u, s') \<Rightarrow>
                         (Inr (),
                          info (''Created new PR comment on PR #'' @ show_nat prNumber) s')))))"

section \<open>The run (index.js, lines 134 to 211)\<close>

text \<open>
  Lines 174 to 181: the comment is posted when \<open>post-comment\<close> is \<open>true\<close> and a
  token was supplied; with no token the step logs a warning and goes on.
\<close>

definition publish_step :: "env \<Rightarrow> bool \<Rightarrow> string \<Rightarrow> string \<Rightarrow> state \<Rightarrow> (js_error + unit) \<times> state" where
  "publish_step env postComment githubToken report s =
     (if postComment
      then (if githubToken = []
            then (Inr (), warning ''github-token is required to post PR comments'' s)
            else postPRComment env githubToken report s)
      else (Inr (), s))"

text \<open>
  Lines 184 to 201: the job summary, in a \<open>try\<close> of its own. Whatever is thrown
  while the table is built or written is dropped for a debug line.
\<close>

definition summary_step :: "js_runtime \<Rightarrow> env \<Rightarrow> string \<Rightarrow> snapshot \<Rightarrow> state \<Rightarrow> state" where
  "summary_step rt env status stats s =
     (case
        bindE (toFixed rt ''stats.success_rate'' (success_rate stats)) (\<lambda>rate.
        bindE (toString_method rt (total_events stats)) (\<lambda>total.
        bindE (toString_method rt (delivered_events stats)) (\<lambda>delivered.
        bindE (toString_method rt (failed_events stats)) (\<lambda>nfailed.
        bindE (toString_method rt (dlq_count stats)) (\<lambda>dlq.
        bindE (toString_method rt (endpoints_count stats)) (\<lambda>eps.
        bindE (case summary_error env of Some e \<Rightarrow> Inl e | None \<Rightarrow> Inr ()) (\<lambda>written.
          Inr (''EventDock Webhook Health'',
               [(''Metric'', ''Value''),
                (''Status'', toUpperCase status),
                (''Success Rate'', rate @ ''%''),
                (''Total Events (24h)'', total),
                (''Delivered'', delivered),
                (''Failed'', nfailed),
                (''In DLQ'', dlq),
                (''Endpoints'', eps)]))))))))
      of
        Inl e \<Rightarrow> debug ''Job summary not available'' s
      | Inr sm \<Rightarrow> s\<lparr>summary := Some sm\<rparr>)"

text \<open>
  Lines 203 to 206: the threshold gate. \<open>rate\<close> is \<open>stats.success_rate.toFixed(2)\<close>,
  which line 157 has already computed.
\<close>

definition threshold_gate :: "js_runtime \<Rightarrow> bool \<Rightarrow> jsnum \<Rightarrow> snapshot \<Rightarrow> string \<Rightarrow> state \<Rightarrow> state" where
  "threshold_gate rt failOnUnhealthy failThreshold stats rate s =
     (if failOnUnhealthy \<and> js_lt (toNumber rt (success_rate stats)) failThreshold
      then setFailed
             (''Webhook health check failed: success rate '' @ rate @ ''% is below threshold ''
                @ numberToString rt failThreshold @ ''%'') s
      else s)"

text \<open>
  Lines 153 to 206, once the snapshot has arrived. An exception leaves the state as it
  was when it was thrown.
\<close>

definition after_fetch ::
  "js_runtime \<Rightarrow> env \<Rightarrow> bool \<Rightarrow> jsnum \<Rightarrow> bool \<Rightarrow> string \<Rightarrow> snapshot \<Rightarrow> state \<Rightarrow> (js_error + unit) \<times> state" where
  "after_fetch rt env failOnUnhealthy failThreshold postComment githubToken stats s2 =
     (let status = determineStatus rt (success_rate stats) (dlq_count stats);
          s3 = info (''Status: '' @ status) s2
      in case toFixed rt ''stats.success_rate'' (success_rate stats) of
           Inl e \<Rightarrow> (Inl e, s3)
         | Inr rate \<Rightarrow>
             (let s4 = info (''Success Rate: '' @ rate @ ''%'') s3;
                  s5 = info (''Total Events (24h): '' @ toStr rt (total_events stats)) s4;
                  s6 = info (''DLQ Count: '' @ toStr rt (dlq_count stats)) s5;
                  o1 = setOutput ''status'' (JStr status) s6;
                  o2 = setOutput ''success-rate'' (JStr rate) o1;
                  o3 = setOutput ''total-events'' (total_events stats) o2;
                  o4 = setOutput ''delivered-events'' (delivered_events stats) o3;
                  o5 = setOutput ''failed-events'' (failed_events stats) o4;
                  o6 = setOutput ''dlq-count'' (dlq_count stats) o5;
                  o7 = setOutput ''endpoints-checked'' (endpoints_count stats) o6
              in case generateReport rt stats of
                   Inl e \<Rightarrow> (Inl e, o7)
                 | Inr report \<Rightarrow>
                     (let o8 = setOutput ''report'' (JStr report) o7
                      in case publish_step env postComment githubToken report o8 of
                           (Inl e, s9) \<Rightarrow> (Inl e, s9)
                         | (Inr u, s9) \<Rightarrow>
                             (Inr (),
                              threshold_gate rt failOnUnhealthy failThreshold stats rate
                                (summary_step rt env status stats s9)))))"

text \<open>The inputs, read on lines 137 to 143.\<close>

definition api_url :: "env \<Rightarrow> string" where
  "api_url env =
     (if getInput env ''api-url'' \<noteq> [] then getInput env ''api-url'' else ''https://api.eventdock.app'')"

definition fail_on_unhealthy :: "env \<Rightarrow> bool" where
  "fail_on_unhealthy env = (getInput env ''fail-on-unhealthy'' = ''true'')"

definition fail_threshold :: "js_runtime \<Rightarrow> env \<Rightarrow> jsnum" where
  "fail_threshold rt env =
     parseFloat rt
       (if getInput env ''fail-threshold'' \<noteq> [] then getInput env ''fail-threshold'' else ''90'')"

definition post_comment :: "env \<Rightarrow> bool" where
  "post_comment env = (getInput env ''post-comment'' = ''true'')"

text \<open>Lines 145 to 148.\<close>

definition announce :: "env \<Rightarrow> state \<Rightarrow> state" where
  "announce env s0 =
     (let endpointId = getInput env ''endpoint-id'';
          s1 = info (''Checking webhook health at '' @ api_url env @ ''...'') s0
      in if endpointId \<noteq> [] then info (''Checking specific endpoint: '' @ endpointId) s1 else s1)"

text \<open>The \<open>try\<close> block of \<open>run\<close>: lines 136 to 206.\<close>

definition run_try :: "js_runtime \<Rightarrow> env \<Rightarrow> state \<Rightarrow> (js_error + unit) \<times> state" where
  "run_try rt env s0 =
     (case getInput_required env ''api-key'' of
        Inl e \<Rightarrow> (Inl e, s0)
      | Inr apiKey \<Rightarrow>
          (let endpointId = getInput env ''endpoint-id'';
               apiUrl = api_url env;
               failOnUnhealthy = fail_on_unhealthy env;
               failThreshold = fail_threshold rt env;
               postComment = post_comment env;
               githubToken = getInput env ''github-token'';
               s2 = announce env s0
           in case getHealthStats env apiUrl apiKey endpointId of
                Inl e \<Rightarrow> (Inl e, s2)
              | Inr stats \<Rightarrow>
                  after_fetch rt env failOnUnhealthy failThreshold postComment githubToken stats s2))"

text \<open>\<open>run\<close>: the \<open>try\<close> block, and the \<open>catch\<close> of lines 208 to 210.\<close>

definition run :: "js_runtime \<Rightarrow> env \<Rightarrow> state \<Rightarrow> state" where
  "run rt env s0 =
     (case run_try rt env s0 of
        (Inl error, s) \<Rightarrow> setFailed (''Action failed: '' @ message error) s
      | (Inr u, s) \<Rightarrow> s)"

section \<open>Notions the properties are stated with\<close>

text \<open>
  The health fetch of a run succeeded with the snapshot \<open>stats\<close>: the required
  input \<open>api-key\<close> was supplied, and the call of line 151 returned \<open>stats\<close>.
\<close>

definition fetched :: "env \<Rightarrow> snapshot \<Rightarrow> bool" where
  "fetched env stats =
     (inputs env ''api-key'' \<noteq> [] \<and>
      getHealthStats env (api_url env) (getInput env ''api-key'') (getInput env ''endpoint-id'')
        = Inr stats)"

text \<open>The health fetch of a run failed with the error \<open>e\<close>.\<close>

definition fetch_failed :: "env \<Rightarrow> js_error \<Rightarrow> bool" where
  "fetch_failed env e =
     (inputs env ''api-key'' \<noteq> [] \<and>
      getHealthStats env (api_url env) (getInput env ''api-key'') (getInput env ''endpoint-id'')
        = Inl e)"

text \<open>
  The request of the run (lines 26 to 30): what the network does with it, and what
  happens to it under the timer of 30000 milliseconds.
\<close>

definition health_exchange :: "env \<Rightarrow> exchange" where
  "health_exchange env =
     http env (healthUrl (api_url env) (getInput env ''endpoint-id''))
       (request_headers (getInput env ''api-key''))"

definition health_request :: "env \<Rightarrow> fetch_outcome" where
  "health_request env = race (health_exchange env) 30000"

text \<open>
  How long a request takes from the moment it is sent, when nobody aborts it: until
  \<open>fetch\<close> rejects, or until the body of the response has been read. A request
  exceeds a bound when it takes longer than that, or never ends. \<open>fetch\<close> is
  unanswered at a time when it settles later than that, or never.
\<close>

definition request_ms :: "exchange \<Rightarrow> nat option" where
  "request_ms x =
     (case settle_ms x of
        None \<Rightarrow> None
      | Some t \<Rightarrow> (case settled x of Inl e \<Rightarrow> Some t | Inr r \<Rightarrow> Some (t + body_ms r)))"

definition exceeds :: "exchange \<Rightarrow> nat \<Rightarrow> bool" where
  "exceeds x bound = (case request_ms x of None \<Rightarrow> True | Some d \<Rightarrow> bound < d)"

definition unanswered :: "exchange \<Rightarrow> nat \<Rightarrow> bool" where
  "unanswered x ms = (case settle_ms x of None \<Rightarrow> True | Some t \<Rightarrow> ms < t)"

text \<open>
  The eight outputs that lines 162 to 172 set, for a snapshot whose success rate is
  the number \<open>x\<close> and whose report is \<open>report\<close>.
\<close>

definition eight_outputs :: "js_runtime \<Rightarrow> snapshot \<Rightarrow> jsnum \<Rightarrow> string \<Rightarrow> (string \<times> jsval) list" where
  "eight_outputs rt stats x report =
     [(''status'', JStr (determineStatus rt (success_rate stats) (dlq_count stats))),
      (''success-rate'', JStr (toFixed2 rt x)),
      (''total-events'', total_events stats),
      (''delivered-events'', delivered_events stats),
      (''failed-events'', failed_events stats),
      (''dlq-count'', dlq_count stats),
      (''endpoints-checked'', endpoints_count stats),
      (''report'', JStr report)]"

text \<open>
  The state after line 172 of a run that started in \<open>s0\<close>, for a snapshot whose
  success rate is the number \<open>x\<close> and whose report is \<open>report\<close>: the log lines and
  the eight outputs.
\<close>

definition reported :: "js_runtime \<Rightarrow> env \<Rightarrow> snapshot \<Rightarrow> jsnum \<Rightarrow> string \<Rightarrow> state \<Rightarrow> state" where
  "reported rt env stats x report s0 =
     setOutput ''report'' (JStr report)
      (setOutput ''endpoints-checked'' (endpoints_count stats)
       (setOutput ''dlq-count'' (dlq_count stats)
        (setOutput ''failed-events'' (failed_events stats)
         (setOutput ''delivered-events'' (delivered_events stats)
          (setOutput ''total-events'' (total_events stats)
           (setOutput ''success-rate'' (JStr (toFixed2 rt x))
            (setOutput ''status'' (JStr (determineStatus rt (success_rate stats) (dlq_count stats)))
             (info (''DLQ Count: '' @ toStr rt (dlq_count stats))
              (info (''Total Events (24h): '' @ toStr rt (total_events stats))
               (info (''Success Rate: '' @ toFixed2 rt x @ ''%'')
                (info (''Status: '' @ determineStatus rt (success_rate stats) (dlq_count stats))
                  (announce env s0))))))))))))"

text \<open>The warnings in the log of a state.\<close>

definition warnings :: "state \<Rightarrow> string list" where
  "warnings s = concat (map (\<lambda>l. case l of Warning m \<Rightarrow> [m] | _ \<Rightarrow> []) (logged s))"

text \<open>
  The snapshots that the renderer accepts: the four counts it calls
  \<open>toLocaleString\<close> on are neither missing nor \<open>null\<close>, the success rate is a
  number, and \<open>endpoints\<close> fails the test of line 75 or is an array none of whose
  entries is \<open>null\<close> and each of whose entries has a success rate that is missing,
  \<open>null\<close> or a number.
\<close>

definition present :: "jsval \<Rightarrow> bool" where
  "present v = (v \<noteq> Undefined \<and> v \<noteq> Null)"

definition is_number :: "jsval \<Rightarrow> bool" where
  "is_number v = (case v of JNum x \<Rightarrow> True | _ \<Rightarrow> False)"

definition row_renders :: "entry \<Rightarrow> bool" where
  "row_renders entry =
     (case entry of
        NullEntry \<Rightarrow> False
      | Entry ep \<Rightarrow> \<not> present (ep_success_rate ep) \<or> is_number (ep_success_rate ep))"

definition renderable :: "snapshot \<Rightarrow> bool" where
  "renderable stats =
     (present (total_events stats) \<and> present (delivered_events stats) \<and>
      present (failed_events stats) \<and> is_number (success_rate stats) \<and>
      present (dlq_count stats) \<and>
      (case endpoints stats of
         NoEndpoints \<Rightarrow> True
       | NotIterable \<Rightarrow> False
       | Endpoints es \<Rightarrow> list_all row_renders es))"

text \<open>The message of the threshold gate, for the rate \<open>x\<close> and the threshold \<open>t\<close>.\<close>

definition gate_message :: "js_runtime \<Rightarrow> jsnum \<Rightarrow> jsnum \<Rightarrow> string" where
  "gate_message rt x t =
     ''Webhook health check failed: success rate '' @ toFixed2 rt x @ ''% is below threshold ''
       @ numberToString rt t @ ''%''"

text \<open>The comments that the marker scan of line 111 matches.\<close>

definition health_comments :: "comment list \<Rightarrow> comment list" where
  "health_comments cs = filter (\<lambda>c. includes_str (body c) marker) cs"

text \<open>
  The comments of a pull request lie within the page that \<open>listComments\<close> returns,
  as far as the marker goes: a comment with the marker is among the first 30, or no
  comment has the marker and a new comment would be among the first 30.
\<close>

definition within_page :: "comment list \<Rightarrow> bool" where
  "within_page cs =
     (health_comments (take per_page cs) \<noteq> [] \<or>
      (health_comments cs = [] \<and> length cs < per_page))"

text \<open>
  The step run several times on the same pull request, each run in surroundings of its
  own: the comments that the runs leave behind, from the comments \<open>cs\<close> that the
  pull request had.
\<close>

fun step_runs :: "js_runtime \<Rightarrow> env list \<Rightarrow> comment list \<Rightarrow> comment list" where
  "step_runs rt [] cs = cs"
| "step_runs rt (env # envs) cs = step_runs rt envs (comments (run rt env (start cs)))"

subsection \<open>Concrete inputs\<close>

text \<open>
  A runtime to instantiate the properties with. Its \<open>parseFloat\<close> reads a number off
  the leading decimal digits of a string, which is what JavaScript returns for the
  strings used below (\<open>90\<close>, and \<open>abc\<close>, which has no numeric prefix). Its locale
  writes the integer part of a number with no grouping.
\<close>

definition digit_value :: "char \<Rightarrow> nat" where
  "digit_value c = (case map_of (zip ''0123456789'' [0, 1, 2, 3, 4, 5, 6, 7, 8, 9]) c of None \<Rightarrow> 0 | Some d \<Rightarrow> d)"

definition leading_number :: "string \<Rightarrow> jsnum" where
  "leading_number s =
     (let ds = takeWhile (\<lambda>c. c \<in> set ''0123456789'') s
      in if ds = [] then NaN else Fin (of_nat (foldl (\<lambda>a c. 10 * a + digit_value c) 0 ds)))"

definition plain_runtime :: js_runtime where
  "plain_runtime =
     \<lparr>parseFloat = leading_number,
      stringToNumber =
        (\<lambda>s. if s = [] then Fin 0
             else if list_all (\<lambda>c. c \<in> set ''0123456789'') s then leading_number s
             else NaN),
      shortestToString = (\<lambda>r. ''?''),
      numberToLocaleString =
        (\<lambda>x. case x of
               Fin r \<Rightarrow> (if r < 0 then ''-'' else []) @ show_nat (nat \<lfloor>\<bar>r\<bar>\<rfloor>)
             | _ \<Rightarrow> ''NaN'')\<rparr>"

definition inputs_of :: "(string \<times> string) list \<Rightarrow> string \<Rightarrow> string" where
  "inputs_of kvs n = (case map_of kvs n of None \<Rightarrow> [] | Some v \<Rightarrow> v)"

definition quiet_env :: "(string \<times> string) list \<Rightarrow> exchange \<Rightarrow> env" where
  "quiet_env kvs x =
     \<lparr>inputs = inputs_of kvs,
      http = (\<lambda>url headers. x),
      pull_request = None,
      token_user = (\<lambda>token. ''github-actions[bot]''),
      listComments_error = None,
      updateComment_error = None,
      createComment_error = None,
      summary_error = None\<rparr>"

text \<open>
  An upstream that answers after 200 milliseconds, with a body that is read in 50
  more; a 200 response with a given snapshot as its body; an upstream that never
  answers.
\<close>

definition answers :: "response \<Rightarrow> exchange" where
  "answers r = \<lparr>settle_ms = Some 200, settled = Inr r\<rparr>"

definition replies :: "snapshot \<Rightarrow> exchange" where
  "replies stats =
     answers \<lparr>http_status = 200, body_ms = 50, body_text = Inr ''{}'', json = Inr stats\<rparr>"

definition silent :: exchange where
  "silent = \<lparr>settle_ms = None, settled = Inl (JsError ''TypeError'' ''fetch failed'')\<rparr>"

text \<open>Scenario A of the specification, and a snapshot for its scenario C.\<close>

definition scenario_a :: snapshot where
  "scenario_a =
     \<lparr>total_events = JNum (Fin 1000), delivered_events = JNum (Fin 995),
      failed_events = JNum (Fin 5), dlq_count = JNum (Fin 0),
      success_rate = JNum (Fin (199 / 2)), endpoints_count = JNum (Fin 2),
      endpoints =
        Endpoints
          [Entry \<lparr>ep_name = JStr ''Stripe'', ep_provider = JStr ''stripe'',
                   ep_status = JStr ''active'', ep_success_rate = JNum (Fin (199 / 2))\<rparr>,
           Entry \<lparr>ep_name = JStr ''Slack'', ep_provider = JStr ''slack'',
                   ep_status = JStr ''active'', ep_success_rate = JNum (Fin (199 / 2))\<rparr>]\<rparr>"

definition scenario_c :: snapshot where
  "scenario_c =
     \<lparr>total_events = JNum (Fin 100), delivered_events = JNum (Fin 80),
      failed_events = JNum (Fin 20), dlq_count = JNum (Fin 10),
      success_rate = JNum (Fin 80), endpoints_count = JNum (Fin 0),
      endpoints = NoEndpoints\<rparr>"

text \<open>
  Scenario D: the upstream answers 500. And an upstream whose response would come
  after 45 seconds, one that the network fails after 30 milliseconds, and a 200
  response whose body does not parse.
\<close>

definition failing_upstream :: env where
  "failing_upstream =
     quiet_env [(''api-key'', ''key'')]
       (answers \<lparr>http_status = 500, body_ms = 50, body_text = Inr ''internal error'',
                  json = Inl (JsError ''SyntaxError'' ''Unexpected token i in JSON'')\<rparr>)"

definition slow_upstream :: env where
  "slow_upstream =
     quiet_env [(''api-key'', ''key'')]
       \<lparr>settle_ms = Some 45000,
        settled = Inr \<lparr>http_status = 200, body_ms = 50, body_text = Inr ''{}'', json = Inr scenario_a\<rparr>\<rparr>"

definition unreachable_upstream :: env where
  "unreachable_upstream =
     quiet_env [(''api-key'', ''key'')]
       \<lparr>settle_ms = Some 30, settled = Inl (JsError ''TypeError'' ''fetch failed'')\<rparr>"

definition garbled_upstream :: env where
  "garbled_upstream =
     quiet_env [(''api-key'', ''key'')]
       (answers \<lparr>http_status = 200, body_ms = 50, body_text = Inr ''<html>'',
                  json = Inl (JsError ''SyntaxError'' ''Unexpected token < in JSON at position 0'')\<rparr>)"

text \<open>
  An upstream that never answers. And one that sends the status and the headers of
  a 200 response after one second, and whose body takes a minute to arrive.
\<close>

definition silent_upstream :: env where
  "silent_upstream = quiet_env [(''api-key'', ''key'')] silent"

definition slow_body_upstream :: env where
  "slow_body_upstream =
     quiet_env [(''api-key'', ''key'')]
       \<lparr>settle_ms = Some 1000,
        settled = Inr \<lparr>http_status = 200, body_ms = 60000, body_text = Inr ''{}'', json = Inr scenario_a\<rparr>\<rparr>"

text \<open>
  A run on pull request 7, and one whose calls of the comment API are refused.
\<close>

definition bad_credentials :: js_error where
  "bad_credentials = JsError ''HttpError'' ''Bad credentials''"

definition on_pull_request :: "(string \<times> string) list \<Rightarrow> snapshot \<Rightarrow> env" where
  "on_pull_request kvs stats = (quiet_env kvs (replies stats))\<lparr>pull_request := Some 7\<rparr>"

definition comment_api_down :: "(string \<times> string) list \<Rightarrow> snapshot \<Rightarrow> env" where
  "comment_api_down kvs stats = (on_pull_request kvs stats)\<lparr>listComments_error := Some bad_credentials\<rparr>"

text \<open>
  Runs of the step: with the comment API refusing (on scenario A, and on scenario C
  with the gate on and off), scenario C with the gate on and off, a run that asks for a comment and has no token, and a
  run whose threshold does not parse, on a snapshot with a success rate of 0.
\<close>

definition api_down_run :: env where
  "api_down_run =
     comment_api_down [(''api-key'', ''key''), (''post-comment'', ''true''), (''github-token'', ''token'')]
       scenario_a"

definition api_down_gated_run :: env where
  "api_down_gated_run =
     comment_api_down
       [(''api-key'', ''key''), (''fail-on-unhealthy'', ''true''), (''post-comment'', ''true''),
        (''github-token'', ''token'')]
       scenario_c"

definition api_down_ungated_run :: env where
  "api_down_ungated_run =
     comment_api_down [(''api-key'', ''key''), (''post-comment'', ''true''), (''github-token'', ''token'')]
       scenario_c"

definition gated_run :: env where
  "gated_run =
     quiet_env [(''api-key'', ''key''), (''fail-on-unhealthy'', ''true''), (''fail-threshold'', ''90'')]
       (replies scenario_c)"

definition plain_run :: env where
  "plain_run = quiet_env [(''api-key'', ''key'')] (replies scenario_c)"

definition tokenless_run :: env where
  "tokenless_run = quiet_env [(''api-key'', ''key''), (''post-comment'', ''true'')] (replies scenario_a)"

definition zero_rate :: snapshot where
  "zero_rate = scenario_c\<lparr>success_rate := JNum (Fin 0)\<rparr>"

definition unparsable_run :: env where
  "unparsable_run =
     quiet_env [(''api-key'', ''key''), (''fail-on-unhealthy'', ''true''), (''fail-threshold'', ''abc'')]
       (replies zero_rate)"

text \<open>
  Comments of a pull request: one without the marker, and one that a person wrote and
  that contains it. A run that publishes on pull request 7, the same run outside a
  pull request, and a short report.
\<close>

definition other_note :: comment where
  "other_note = \<lparr>comment_id = 10, author = ''bob'', body = ''LGTM''\<rparr>"

definition human_note :: comment where
  "human_note =
     \<lparr>comment_id = 11, author = ''alice'',
      body = ''Where does the EventDock Webhook Health Report get posted?''\<rparr>"

definition pr_run :: env where
  "pr_run =
     on_pull_request [(''api-key'', ''key''), (''post-comment'', ''true''), (''github-token'', ''token'')]
       scenario_a"

definition off_pr_run :: env where
  "off_pr_run =
     quiet_env [(''api-key'', ''key''), (''post-comment'', ''true''), (''github-token'', ''token'')]
       (replies scenario_a)"

definition short_report :: string where
  "short_report = ''## :x: EventDock Webhook Health Report''"

text \<open>
  Pull requests with more than a page of comments: thirty comments without the
  marker, followed by the comment of an earlier run, or by a person's comment that
  contains the marker. And a pull request that holds two comments with the marker.
\<close>

fun chatter :: "nat \<Rightarrow> comment list" where
  "chatter 0 = []"
| "chatter (Suc n) = chatter n @ [\<lparr>comment_id = Suc n, author = ''bob'', body = ''LGTM''\<rparr>]"

definition earlier_report :: comment where
  "earlier_report = \<lparr>comment_id = 31, author = ''github-actions[bot]'', body = short_report\<rparr>"

definition crowded :: "comment list" where
  "crowded = chatter 30 @ [earlier_report]"

definition late_note :: comment where
  "late_note =
     \<lparr>comment_id = 31, author = ''alice'',
      body = ''Where does the EventDock Webhook Health Report get posted?''\<rparr>"

definition crowded_thread :: "comment list" where
  "crowded_thread = chatter 30 @ [late_note]"

definition doubled :: "comment list" where
  "doubled = [human_note, \<lparr>comment_id = 12, author = ''github-actions[bot]'', body = short_report\<rparr>]"

text \<open>
  An endpoint with no success rate, snapshots with a missing or null number, and
  snapshots whose \<open>endpoints\<close> holds a \<open>null\<close> entry, or is an object with a
  \<open>length\<close> of 1.
\<close>

definition unrated_endpoint :: endpoint where
  "unrated_endpoint =
     \<lparr>ep_name = JStr ''Stripe'', ep_provider = JStr ''stripe'', ep_status = JStr ''active'',
      ep_success_rate = Undefined\<rparr>"

definition no_total :: snapshot where
  "no_total = scenario_a\<lparr>total_events := Undefined\<rparr>"

definition null_rate :: snapshot where
  "null_rate = scenario_a\<lparr>success_rate := Null\<rparr>"

definition null_entry :: snapshot where
  "null_entry = scenario_a\<lparr>endpoints := Endpoints [NullEntry]\<rparr>"

definition odd_endpoints :: snapshot where
  "odd_endpoints = scenario_a\<lparr>endpoints := NotIterable\<rparr>"

section \<open>The classifier\<close>

text \<open>
  C1. For a success rate that is a double and a DLQ count that is an integer, the
  classifier returns \<open>healthy\<close> exactly when the rate is at least 99 and the count is 0,
  otherwise \<open>degraded\<close> exactly when the rate is at least 90, otherwise
  \<open>unhealthy\<close>. A NaN rate fails both comparisons and is \<open>unhealthy\<close>; so is
  minus infinity, and plus infinity passes both comparisons.
\<close>

theorem determineStatus_rule:
  "determineStatus rt (JNum (Fin r)) (JNum (Fin (of_int n))) =
     (if r \<ge> 99 \<and> n = 0 then ''healthy'' else if r \<ge> 90 then ''degraded'' else ''unhealthy'')
   \<and> determineStatus rt (JNum NaN) (JNum (Fin (of_int n))) = ''unhealthy''
   \<and> determineStatus rt (JNum NegInf) (JNum (Fin (of_int n))) = ''unhealthy''
   \<and> determineStatus rt (JNum PosInf) (JNum (Fin (of_int n))) =
       (if n = 0 then ''healthy'' else ''degraded'')"
  by (auto simp: determineStatus_def js_ge_def)

theorem determineStatus_rule_witness:
  "determineStatus plain_runtime (JNum (Fin (199 / 2))) (JNum (Fin 0)) = ''healthy''
   \<and> determineStatus plain_runtime (JNum (Fin 100)) (JNum (Fin 3)) = ''degraded''
   \<and> determineStatus plain_runtime (JNum (Fin 92)) (JNum (Fin 3)) = ''degraded''
   \<and> determineStatus plain_runtime (JNum (Fin 80)) (JNum (Fin 10)) = ''unhealthy''
   \<and> determineStatus plain_runtime (JNum NaN) (JNum (Fin 0)) = ''unhealthy''"
  using determineStatus_rule [of plain_runtime "199 / 2" 0]
    determineStatus_rule [of plain_runtime 100 3]
    determineStatus_rule [of plain_runtime 92 3]
    determineStatus_rule [of plain_runtime 80 10]
  by simp

section \<open>How the run changes the state\<close>

lemma info_fields [simp]:
  "outputs (info m s) = outputs s" "failed (info m s) = failed s"
  "summary (info m s) = summary s" "comments (info m s) = comments s"
  by (simp_all add: info_def)

lemma warning_fields [simp]:
  "outputs (warning m s) = outputs s" "failed (warning m s) = failed s"
  "summary (warning m s) = summary s" "comments (warning m s) = comments s"
  by (simp_all add: warning_def)

lemma debug_fields [simp]:
  "outputs (debug m s) = outputs s" "failed (debug m s) = failed s"
  "summary (debug m s) = summary s" "comments (debug m s) = comments s"
  by (simp_all add: debug_def)

lemma setOutput_fields [simp]:
  "outputs (setOutput k v s) = outputs s @ [(k, v)]" "failed (setOutput k v s) = failed s"
  "summary (setOutput k v s) = summary s" "comments (setOutput k v s) = comments s"
  "logged (setOutput k v s) = logged s"
  by (simp_all add: setOutput_def)

lemma setFailed_fields [simp]:
  "outputs (setFailed m s) = outputs s" "failed (setFailed m s) = Some m"
  "summary (setFailed m s) = summary s" "comments (setFailed m s) = comments s"
  by (simp_all add: setFailed_def)

lemma announce_fields [simp]:
  "outputs (announce env s) = outputs s" "failed (announce env s) = failed s"
  "summary (announce env s) = summary s" "comments (announce env s) = comments s"
  by (simp_all add: announce_def Let_def)

lemma start_fields [simp]:
  "outputs (start cs) = []" "failed (start cs) = None"
  "summary (start cs) = None" "comments (start cs) = cs" "logged (start cs) = []"
  by (simp_all add: start_def)

lemma postPRComment_fields [simp]:
  "outputs (snd (postPRComment env tok r s)) = outputs s"
  "failed (snd (postPRComment env tok r s)) = failed s"
  "summary (snd (postPRComment env tok r s)) = summary s"
  by (auto simp: postPRComment_def listComments_def updateComment_def createComment_def
      split: option.splits sum.splits prod.splits)

lemma postPRComment_comments_only:
  assumes "comments s = comments s'"
  shows "fst (postPRComment env tok r s) = fst (postPRComment env tok r s')"
    and "comments (snd (postPRComment env tok r s)) = comments (snd (postPRComment env tok r s'))"
  using assms
  by (auto simp: postPRComment_def listComments_def updateComment_def createComment_def
      split: option.splits sum.splits prod.splits)

lemma publish_step_fields [simp]:
  "outputs (snd (publish_step env pc tok r s)) = outputs s"
  "failed (snd (publish_step env pc tok r s)) = failed s"
  "summary (snd (publish_step env pc tok r s)) = summary s"
  by (simp_all add: publish_step_def)

lemma publish_step_comments_only:
  assumes "comments s = comments s'"
  shows "fst (publish_step env pc tok r s) = fst (publish_step env pc tok r s')"
    and "comments (snd (publish_step env pc tok r s)) = comments (snd (publish_step env pc tok r s'))"
  using postPRComment_comments_only [OF assms] assms
  by (simp_all add: publish_step_def)

lemma publish_step_throw_comments:
  "fst (publish_step env pc tok r s) = Inl e \<Longrightarrow> comments (snd (publish_step env pc tok r s)) = comments s"
  by (auto simp: publish_step_def postPRComment_def listComments_def updateComment_def createComment_def
      split: option.splits sum.splits prod.splits if_splits)

lemma summary_step_fields [simp]:
  "outputs (summary_step rt env st stats s) = outputs s"
  "failed (summary_step rt env st stats s) = failed s"
  "comments (summary_step rt env st stats s) = comments s"
  by (simp_all add: summary_step_def split: sum.splits)

lemma threshold_gate_fields [simp]:
  "outputs (threshold_gate rt b t stats rate s) = outputs s"
  "comments (threshold_gate rt b t stats rate s) = comments s"
  "summary (threshold_gate rt b t stats rate s) = summary s"
  by (simp_all add: threshold_gate_def)

lemma run_try_fetched:
  "fetched env stats \<Longrightarrow>
   run_try rt env s0 =
     after_fetch rt env (fail_on_unhealthy env) (fail_threshold rt env) (post_comment env)
       (getInput env ''github-token'') stats (announce env s0)"
  by (simp add: fetched_def run_try_def getInput_required_def getInput_def Let_def)

lemma run_try_fetch_failed:
  "fetch_failed env e \<Longrightarrow> run_try rt env s0 = (Inl e, announce env s0)"
  by (simp add: fetch_failed_def run_try_def getInput_required_def getInput_def Let_def)

lemma generateReport_number:
  "generateReport rt stats = Inr report \<Longrightarrow> \<exists>x. success_rate stats = JNum x"
  by (cases "success_rate stats") (auto simp: generateReport_def bindE_def Let_def split: sum.splits)


lemma warnings_simps [simp]:
  "warnings (info m s) = warnings s"
  "warnings (debug m s) = warnings s"
  "warnings (warning m s) = warnings s @ [m]"
  "warnings (setOutput k v s) = warnings s"
  "warnings (setFailed m s) = warnings s"
  "warnings (start cs) = []"
  by (simp_all add: warnings_def info_def debug_def warning_def setOutput_def setFailed_def start_def)

lemma warnings_announce [simp]: "warnings (announce env s) = warnings s"
  by (simp add: announce_def Let_def)

lemma warnings_comments_update [simp]: "warnings (s\<lparr>comments := cs\<rparr>) = warnings s"
  by (simp add: warnings_def)

lemma warnings_summary_update [simp]: "warnings (s\<lparr>summary := sm\<rparr>) = warnings s"
  by (simp add: warnings_def)

lemma warnings_postPRComment [simp]:
  "warnings (snd (postPRComment env tok r s)) = warnings s"
  by (auto simp: postPRComment_def listComments_def updateComment_def createComment_def
      split: option.splits sum.splits prod.splits)

lemma warnings_publish_step:
  "warnings (snd (publish_step env pc tok r s)) =
     warnings s @ (if pc \<and> tok = [] then [''github-token is required to post PR comments''] else [])"
  by (simp add: publish_step_def)

lemma warnings_summary_step [simp]:
  "warnings (summary_step rt env st stats s) = warnings s"
  by (simp add: summary_step_def split: sum.splits)

lemma warnings_threshold_gate [simp]:
  "warnings (threshold_gate rt b t stats rate s) = warnings s"
  by (simp add: threshold_gate_def)

lemma reported_fields [simp]:
  "outputs (reported rt env stats x report s) = outputs s @ eight_outputs rt stats x report"
  "failed (reported rt env stats x report s) = failed s"
  "summary (reported rt env stats x report s) = summary s"
  "comments (reported rt env stats x report s) = comments s"
  "warnings (reported rt env stats x report s) = warnings s"
  by (simp_all add: reported_def eight_outputs_def)

lemma run_try_reported:
  assumes f: "fetched env stats"
    and x: "success_rate stats = JNum x"
    and r: "generateReport rt stats = Inr report"
  shows "run_try rt env s0 =
      (case publish_step env (post_comment env) (getInput env ''github-token'') report
              (reported rt env stats x report s0) of
         (Inl e, s9) \<Rightarrow> (Inl e, s9)
       | (Inr u, s9) \<Rightarrow>
           (Inr (),
            threshold_gate rt (fail_on_unhealthy env) (fail_threshold rt env) stats (toFixed2 rt x)
              (summary_step rt env (determineStatus rt (success_rate stats) (dlq_count stats)) stats
                 s9)))"
proof -
  have tf: "toFixed rt ''stats.success_rate'' (success_rate stats) = Inr (toFixed2 rt x)"
    by (simp add: x)
  show ?thesis
    unfolding run_try_fetched [OF f] after_fetch_def reported_def
    by (simp add: tf r Let_def)
qed

lemma run_try_not_rendered:
  assumes f: "fetched env stats"
    and r: "generateReport rt stats = Inl e"
  shows "\<exists>e' s. run_try rt env s0 = (Inl e', s) \<and> failed s = failed s0 \<and> warnings s = warnings s0
           \<and> comments s = comments s0 \<and> summary s = summary s0"
  unfolding run_try_fetched [OF f] after_fetch_def
  by (cases "toFixed rt ''stats.success_rate'' (success_rate stats)") (simp_all add: r Let_def)

text \<open>A run whose snapshot arrived and rendered.\<close>

lemma run_after_fetch:
  assumes f: "fetched env stats"
    and x: "success_rate stats = JNum x"
    and r: "generateReport rt stats = Inr report"
  shows "outputs (run rt env (start cs)) = eight_outputs rt stats x report"
    and "comments (run rt env (start cs)) =
           comments (snd (publish_step env (post_comment env) (getInput env ''github-token'') report (start cs)))"
    and "failed (run rt env (start cs)) =
           (case fst (publish_step env (post_comment env) (getInput env ''github-token'') report (start cs)) of
              Inl e \<Rightarrow> Some (''Action failed: '' @ message e)
            | Inr u \<Rightarrow>
                if fail_on_unhealthy env \<and> js_lt x (fail_threshold rt env)
                then Some (gate_message rt x (fail_threshold rt env)) else None)"
    and "warnings (run rt env (start cs)) =
           (if post_comment env \<and> getInput env ''github-token'' = []
            then [''github-token is required to post PR comments''] else [])"
    and "fst (publish_step env (post_comment env) (getInput env ''github-token'') report (start cs)) = Inl e
           \<Longrightarrow> summary (run rt env (start cs)) = None"
proof -
  define o8 where "o8 = reported rt env stats x report (start cs)"
  define p where "p = publish_step env (post_comment env) (getInput env ''github-token'') report o8"
  define q where "q = publish_step env (post_comment env) (getInput env ''github-token'') report (start cs)"
  have o8_com: "comments o8 = comments (start cs)"
    by (simp add: o8_def)
  have body: "run_try rt env (start cs) =
      (case p of
         (Inl e, s9) \<Rightarrow> (Inl e, s9)
       | (Inr u, s9) \<Rightarrow>
           (Inr (),
            threshold_gate rt (fail_on_unhealthy env) (fail_threshold rt env) stats (toFixed2 rt x)
              (summary_step rt env (determineStatus rt (success_rate stats) (dlq_count stats)) stats
                 s9)))"
    unfolding p_def o8_def by (rule run_try_reported [OF f x r])
  have p_fst: "fst p = fst q"
    unfolding p_def q_def by (rule publish_step_comments_only(1) [OF o8_com])
  have p_com: "comments (snd p) = comments (snd q)"
    unfolding p_def q_def by (rule publish_step_comments_only(2) [OF o8_com])
  have p_out: "outputs (snd p) = eight_outputs rt stats x report"
    unfolding p_def by (simp add: o8_def)
  have p_failed: "failed (snd p) = None"
    unfolding p_def by (simp add: o8_def)
  have p_summary: "summary (snd p) = None"
    unfolding p_def by (simp add: o8_def)
  have p_warn: "warnings (snd p) =
           (if post_comment env \<and> getInput env ''github-token'' = []
            then [''github-token is required to post PR comments''] else [])"
    unfolding p_def by (simp add: o8_def warnings_publish_step)
  show "outputs (run rt env (start cs)) = eight_outputs rt stats x report"
    using p_out by (cases p) (auto simp: run_def body split: sum.splits)
  show "comments (run rt env (start cs)) = comments (snd q)"
    using p_com by (cases p) (auto simp: run_def body split: sum.splits)
  show "failed (run rt env (start cs)) =
           (case fst q of
              Inl e \<Rightarrow> Some (''Action failed: '' @ message e)
            | Inr u \<Rightarrow>
                if fail_on_unhealthy env \<and> js_lt x (fail_threshold rt env)
                then Some (gate_message rt x (fail_threshold rt env)) else None)"
    using p_fst p_failed
    by (cases p) (auto simp: run_def body threshold_gate_def gate_message_def x split: sum.splits)
  show "warnings (run rt env (start cs)) =
           (if post_comment env \<and> getInput env ''github-token'' = []
            then [''github-token is required to post PR comments''] else [])"
    using p_warn by (cases p) (auto simp: run_def body split: sum.splits)
  show "summary (run rt env (start cs)) = None" if "fst q = Inl e"
    using p_fst p_summary that by (cases p) (auto simp: run_def body split: sum.splits)
qed

lemma run_fetch_failed:
  assumes "fetch_failed env e"
  shows "failed (run rt env (start cs)) = Some (''Action failed: '' @ message e)"
    and "outputs (run rt env (start cs)) = []"
    and "comments (run rt env (start cs)) = cs"
    and "summary (run rt env (start cs)) = None"
  by (simp_all add: run_def run_try_fetch_failed [OF assms])

lemma getHealthStats_outcome:
  "getHealthStats env (api_url env) (getInput env ''api-key'') (getInput env ''endpoint-id'') =
     (case health_request env of
        TimerFired \<Rightarrow> Inl abort_error
      | Rejected e \<Rightarrow> Inl e
      | Responded r \<Rightarrow>
          if ok r then json r
          else (case body_text r of Inl e \<Rightarrow> Inl e | Inr t \<Rightarrow> Inl (api_error (http_status r) t)))"
  by (simp add: getHealthStats_def fetchWithTimeout_def health_request_def health_exchange_def
      bindE_def split: fetch_outcome.splits sum.splits)

section \<open>Failure of the health request\<close>

text \<open>
  C5. When the health request fails, the run is marked failed with
  \<open>Action failed:\<close> and the message of the error, and no output is set. The request
  fails when the timer aborts it, when \<open>fetch\<close> rejects, when the response is not
  2xx (the error carries the status and the body), and when the body of a 2xx
  response does not parse.
\<close>

theorem fetch_failure_fatal:
  "(fetch_failed env e \<longrightarrow>
      failed (run rt env (start cs)) = Some (''Action failed: '' @ message e) \<and>
      outputs (run rt env (start cs)) = []) \<and>
   (inputs env ''api-key'' \<noteq> [] \<and> health_request env = TimerFired \<longrightarrow>
      fetch_failed env abort_error) \<and>
   (inputs env ''api-key'' \<noteq> [] \<and> health_request env = Rejected e \<longrightarrow>
      fetch_failed env e) \<and>
   (inputs env ''api-key'' \<noteq> [] \<and> health_request env = Responded r \<and> \<not> ok r \<and>
    body_text r = Inr t \<longrightarrow>
      fetch_failed env (api_error (http_status r) t)) \<and>
   (inputs env ''api-key'' \<noteq> [] \<and> health_request env = Responded r \<and> ok r \<and>
    json r = Inl e \<longrightarrow>
      fetch_failed env e)"
  using run_fetch_failed(1,2) [of env e rt cs]
  by (simp add: fetch_failed_def getHealthStats_outcome)

theorem fetch_failure_fatal_witness:
  "failed (run plain_runtime failing_upstream (start [])) =
     Some ''Action failed: API request failed: 500 - internal error''
   \<and> outputs (run plain_runtime failing_upstream (start [])) = []
   \<and> failed (run plain_runtime slow_upstream (start [])) =
       Some ''Action failed: This operation was aborted''
   \<and> outputs (run plain_runtime slow_upstream (start [])) = []
   \<and> failed (run plain_runtime unreachable_upstream (start [])) = Some ''Action failed: fetch failed''
   \<and> outputs (run plain_runtime unreachable_upstream (start [])) = []
   \<and> failed (run plain_runtime garbled_upstream (start [])) =
       Some ''Action failed: Unexpected token < in JSON at position 0''
   \<and> outputs (run plain_runtime garbled_upstream (start [])) = []"
proof -
  let ?r = "\<lparr>http_status = 500, body_ms = 50, body_text = Inr ''internal error'',
             json = Inl (JsError ''SyntaxError'' ''Unexpected token i in JSON'')\<rparr>"
  let ?g = "\<lparr>http_status = 200, body_ms = 50, body_text = Inr ''<html>'',
             json = Inl (JsError ''SyntaxError'' ''Unexpected token < in JSON at position 0'')\<rparr>"
  let ?u = "JsError ''TypeError'' ''fetch failed''"
  let ?s = "JsError ''SyntaxError'' ''Unexpected token < in JSON at position 0''"
  have key: "inputs failing_upstream ''api-key'' \<noteq> []" "inputs slow_upstream ''api-key'' \<noteq> []"
    "inputs unreachable_upstream ''api-key'' \<noteq> []" "inputs garbled_upstream ''api-key'' \<noteq> []"
    by (simp_all add: failing_upstream_def slow_upstream_def unreachable_upstream_def
        garbled_upstream_def quiet_env_def inputs_of_def)
  have req: "health_request failing_upstream = Responded ?r" "health_request slow_upstream = TimerFired"
    "health_request unreachable_upstream = Rejected ?u" "health_request garbled_upstream = Responded ?g"
    by (simp_all add: failing_upstream_def slow_upstream_def unreachable_upstream_def
        garbled_upstream_def quiet_env_def health_request_def health_exchange_def race_def
        answers_def)
  have nok: "\<not> ok ?r" "body_text ?r = Inr ''internal error''" "http_status ?r = 500"
    "ok ?g" "json ?g = Inl ?s"
    by (simp_all add: ok_def)
  have msg: "message (api_error 500 ''internal error'') = ''API request failed: 500 - internal error''"
    "message abort_error = ''This operation was aborted''"
    by (simp_all add: api_error_def abort_error_def digit_char_def)
  have a: "fetch_failed failing_upstream (api_error 500 ''internal error'')"
    using fetch_failure_fatal [where env = failing_upstream and r = ?r and t = "''internal error''"]
      key req nok by simp
  have b: "fetch_failed slow_upstream abort_error"
    using fetch_failure_fatal [where env = slow_upstream] key req by simp
  have c: "fetch_failed unreachable_upstream ?u"
    using fetch_failure_fatal [where env = unreachable_upstream and e = ?u] key req by simp
  have d: "fetch_failed garbled_upstream ?s"
    using fetch_failure_fatal [where env = garbled_upstream and r = ?g and e = ?s] key req nok
    by simp
  show ?thesis
    using fetch_failure_fatal [where env = failing_upstream and e = "api_error 500 ''internal error''"
        and rt = plain_runtime and cs = "[]"]
      fetch_failure_fatal [where env = slow_upstream and e = abort_error
        and rt = plain_runtime and cs = "[]"]
      fetch_failure_fatal [where env = unreachable_upstream and e = ?u
        and rt = plain_runtime and cs = "[]"]
      fetch_failure_fatal [where env = garbled_upstream and e = ?s
        and rt = plain_runtime and cs = "[]"]
      a b c d msg by simp
qed

section \<open>The renderer on incomplete snapshots\<close>

lemma toLocaleString_present:
  "(\<exists>t. toLocaleString rt v = Inr t) = present v"
  by (cases v) (simp_all add: present_def)

lemma toFixed_number:
  "(\<exists>t. toFixed rt e v = Inr t) = is_number v"
  by (cases v) (simp_all add: is_number_def)

lemma bindE_Inr:
  "(bindE m f = Inr y) = (\<exists>x. m = Inr x \<and> f x = Inr y)"
  by (cases m) (simp_all add: bindE_def)

lemma bindE_Inl:
  "(bindE m f = Inl e) = (m = Inl e \<or> (\<exists>x. m = Inr x \<and> f x = Inl e))"
  by (cases m) (simp_all add: bindE_def)

lemma endpoint_row_completes:
  "(\<exists>row. endpoint_row rt entry = Inr row) = row_renders entry"
proof (cases entry)
  case NullEntry
  then show ?thesis by (simp add: endpoint_row_def row_renders_def)
next
  case (Entry ep)
  then show ?thesis
    by (cases "ep_success_rate ep")
       (simp_all add: endpoint_row_def row_renders_def Let_def bindE_def present_def is_number_def)
qed

lemma endpoint_rows_completes:
  "(\<exists>r. endpoint_rows rt eps acc = Inr r) = list_all row_renders eps"
proof (induction eps arbitrary: acc)
  case Nil
  show ?case by simp
next
  case (Cons ep eps)
  show ?case
  proof (cases "endpoint_row rt ep")
    case (Inl e)
    with endpoint_row_completes [of rt ep] show ?thesis
      by (simp add: bindE_def)
  next
    case (Inr row)
    with endpoint_row_completes [of rt ep] Cons.IH [of "acc @ row"] show ?thesis
      by (simp add: bindE_def)
  qed
qed

lemma endpoints_section_completes:
  "(\<exists>r. endpoints_section rt eps acc = Inr r) =
     (case eps of NoEndpoints \<Rightarrow> True | NotIterable \<Rightarrow> False | Endpoints l \<Rightarrow> list_all row_renders l)"
proof (cases eps)
  case NoEndpoints
  then show ?thesis by (simp add: endpoints_section_def)
next
  case NotIterable
  then show ?thesis by (simp add: endpoints_section_def)
next
  case (Endpoints l)
  show ?thesis
  proof (cases "l = []")
    case True
    with Endpoints show ?thesis by (simp add: endpoints_section_def)
  next
    case False
    have "(\<exists>r. endpoints_section rt eps acc = Inr r) =
        (\<exists>r. endpoint_rows rt l
               (acc @ ''### Endpoints\<newline>\<newline>''
                  @ ''| Name | Provider | Status | Success Rate |\<newline>''
                  @ ''|------|----------|--------|-------------|\<newline>'') = Inr r)"
      using Endpoints False by (simp add: endpoints_section_def bindE_Inr)
    then show ?thesis
      using Endpoints by (simp only: endpoint_rows_completes endpoints_value.case)
  qed
qed

lemma generateReport_completes:
  "(\<exists>report. generateReport rt stats = Inr report) = renderable stats"
proof -
  have "(\<exists>report. generateReport rt stats = Inr report) =
      ((\<exists>t. toLocaleString rt (total_events stats) = Inr t) \<and>
       (\<exists>t. toLocaleString rt (delivered_events stats) = Inr t) \<and>
       (\<exists>t. toLocaleString rt (failed_events stats) = Inr t) \<and>
       (\<exists>t. toFixed rt ''stats.success_rate'' (success_rate stats) = Inr t) \<and>
       (\<exists>t. toLocaleString rt (dlq_count stats) = Inr t) \<and>
       (case endpoints stats of NoEndpoints \<Rightarrow> True | NotIterable \<Rightarrow> False
        | Endpoints l \<Rightarrow> list_all row_renders l))"
    unfolding generateReport_def Let_def bindE_Inr
    using endpoints_section_completes [of rt "endpoints stats"]
    by (simp add: ex_simps [symmetric] del: ex_simps) blast
  then show ?thesis
    by (simp add: renderable_def toLocaleString_present toFixed_number)
qed

text \<open>Whatever the renderer throws is a TypeError.\<close>

lemma toLocaleString_error:
  "toLocaleString rt v = Inl e \<Longrightarrow> error_name e = ''TypeError''"
  by (cases v) (auto simp: cannot_read_def)

lemma toFixed_error:
  "toFixed rt x v = Inl e \<Longrightarrow> error_name e = ''TypeError''"
  by (cases v) (auto simp: cannot_read_def not_a_function_def)

lemma endpoint_row_error:
  "endpoint_row rt entry = Inl e \<Longrightarrow> error_name e = ''TypeError''"
proof (cases entry)
  case NullEntry
  assume "endpoint_row rt entry = Inl e"
  with NullEntry show ?thesis by (auto simp: endpoint_row_def cannot_read_def)
next
  case (Entry ep)
  assume "endpoint_row rt entry = Inl e"
  with Entry have "toFixed rt ''ep.success_rate?'' (ep_success_rate ep) = Inl e"
    by (auto simp: endpoint_row_def Let_def bindE_Inl split: if_splits)
  then show ?thesis by (rule toFixed_error)
qed

lemma endpoint_rows_error:
  "endpoint_rows rt eps acc = Inl e \<Longrightarrow> error_name e = ''TypeError''"
proof (induction eps arbitrary: acc)
  case Nil
  then show ?case by simp
next
  case (Cons ep eps)
  from Cons.prems consider "endpoint_row rt ep = Inl e"
    | row where "endpoint_rows rt eps (acc @ row) = Inl e"
    by (auto simp: bindE_Inl)
  then show ?case
  proof cases
    case 1
    then show ?thesis by (rule endpoint_row_error)
  next
    case 2
    then show ?thesis by (rule Cons.IH)
  qed
qed

lemma endpoints_section_error:
  "endpoints_section rt eps acc = Inl e \<Longrightarrow> error_name e = ''TypeError''"
proof (cases eps)
  case NoEndpoints
  assume "endpoints_section rt eps acc = Inl e"
  with NoEndpoints show ?thesis by (simp add: endpoints_section_def)
next
  case NotIterable
  assume "endpoints_section rt eps acc = Inl e"
  with NotIterable show ?thesis by (auto simp: endpoints_section_def not_iterable_def)
next
  case (Endpoints l)
  assume "endpoints_section rt eps acc = Inl e"
  with Endpoints obtain acc' where "endpoint_rows rt l acc' = Inl e"
    by (auto simp: endpoints_section_def bindE_Inl split: if_splits)
  then show ?thesis by (rule endpoint_rows_error)
qed

lemma generateReport_error:
  assumes "generateReport rt stats = Inl e"
  shows "error_name e = ''TypeError''"
proof -
  from assms consider "toLocaleString rt (total_events stats) = Inl e"
    | "toLocaleString rt (delivered_events stats) = Inl e"
    | "toLocaleString rt (failed_events stats) = Inl e"
    | "toFixed rt ''stats.success_rate'' (success_rate stats) = Inl e"
    | "toLocaleString rt (dlq_count stats) = Inl e"
    | acc where "endpoints_section rt (endpoints stats) acc = Inl e"
    unfolding generateReport_def Let_def bindE_Inl by blast
  then show ?thesis
    by cases (erule toLocaleString_error toFixed_error endpoints_section_error)+
qed

lemma generateReport_throws:
  assumes "\<not> renderable stats"
  shows "\<exists>m. generateReport rt stats = Inl (JsError ''TypeError'' m)"
proof (cases "generateReport rt stats")
  case (Inl e)
  with generateReport_error [of rt stats e] show ?thesis
    by (cases e) simp
next
  case (Inr report)
  with assms generateReport_completes [of rt stats] show ?thesis by blast
qed




section \<open>Runs whose snapshot arrived\<close>

lemmas env_defs = quiet_env_def inputs_of_def replies_def answers_def race_def
  on_pull_request_def comment_api_down_def
  getInput_def api_url_def fail_on_unhealthy_def post_comment_def

lemma fetched_replies:
  "map_of kvs ''api-key'' = Some k \<Longrightarrow> k \<noteq> [] \<Longrightarrow> fetched (quiet_env kvs (replies stats)) stats"
  "map_of kvs ''api-key'' = Some k \<Longrightarrow> k \<noteq> [] \<Longrightarrow> fetched (on_pull_request kvs (stats)) stats"
  "map_of kvs ''api-key'' = Some k \<Longrightarrow> k \<noteq> [] \<Longrightarrow> fetched (comment_api_down kvs (stats)) stats"
  by (simp_all add: fetched_def env_defs getHealthStats_def fetchWithTimeout_def bindE_def ok_def)

lemma renders:
  "renderable stats \<Longrightarrow> \<exists>x report. success_rate stats = JNum x \<and> generateReport rt stats = Inr report"
  using generateReport_completes [of rt stats] generateReport_number [of rt stats] by blast

lemma renderable_scenarios: "renderable scenario_a" "renderable scenario_c" "renderable zero_rate"
  by (simp_all add: renderable_def row_renders_def scenario_a_def scenario_c_def zero_rate_def
      present_def is_number_def)

lemma publish_step_throws:
  "fst (publish_step env pc tok r s) = Inl e \<Longrightarrow> pc \<and> tok \<noteq> []"
  by (auto simp: publish_step_def split: if_splits)

lemma publish_list_error:
  "pc \<Longrightarrow> tok \<noteq> [] \<Longrightarrow> pull_request env = Some n \<Longrightarrow> listComments_error env = Some e \<Longrightarrow>
   fst (publish_step env pc tok report s) = Inl e"
  by (simp add: publish_step_def postPRComment_def listComments_def)

lemma publish_not_requested:
  "\<not> pc \<or> tok = [] \<or> pull_request env = None \<Longrightarrow> fst (publish_step env pc tok report s) = Inr ()"
  by (auto simp: publish_step_def postPRComment_def)

lemma threshold_90: "fail_threshold plain_runtime gated_run = Fin 90"
  "fail_threshold plain_runtime plain_run = Fin 90"
  "fail_threshold plain_runtime api_down_gated_run = Fin 90"
  by (simp_all add: fail_threshold_def gated_run_def plain_run_def api_down_gated_run_def env_defs
      plain_runtime_def leading_number_def digit_value_def)

lemma js_lt_NaN [simp]: "js_lt a NaN = False"
  by (cases a) simp_all

lemma run_try_failed_NaN:
  assumes "fail_threshold rt env = NaN"
  shows "failed (snd (run_try rt env s)) = failed s"
proof (cases "inputs env ''api-key'' = []")
  case True
  then show ?thesis by (simp add: run_try_def getInput_required_def)
next
  case False
  show ?thesis
  proof (cases "getHealthStats env (api_url env) (getInput env ''api-key'') (getInput env ''endpoint-id'')")
    case (Inl e)
    with False have "fetch_failed env e" by (simp add: fetch_failed_def)
    then show ?thesis by (simp add: run_try_fetch_failed)
  next
    case (Inr stats)
    with False have f: "fetched env stats" by (simp add: fetched_def)
    show ?thesis
    proof (cases "generateReport rt stats")
      case (Inl e)
      from run_try_not_rendered [OF f Inl, of s] show ?thesis by auto
    next
      case (Inr report)
      obtain x where x: "success_rate stats = JNum x"
        using generateReport_number [OF Inr] by blast
      obtain r9 s9 where p: "publish_step env (post_comment env) (getInput env ''github-token'') report
              (reported rt env stats x report s) = (r9, s9)"
        by fastforce
      have "failed s9 = failed s"
        using publish_step_fields(2) [of env "post_comment env" "getInput env ''github-token''" report
            "reported rt env stats x report s"] p by simp
      then show ?thesis
        by (cases r9) (simp_all add: run_try_reported [OF f x Inr] p threshold_gate_def assms)
    qed
  qed
qed

section \<open>A failure of the comment API\<close>

text \<open>
  C2, as the code has it. Once the snapshot has arrived and the eight outputs are set, a
  failure raised while the comment is published is not caught where it is raised: it
  reaches the \<open>catch\<close> of \<open>run\<close>, which marks the run failed with
  \<open>Action failed:\<close> and the message of the error. The eight outputs stay as they were
  set, the comments are unchanged, the job summary and the threshold gate are
  skipped, and no warning is logged.
\<close>

theorem publish_failure_reaches_catch:
  assumes "fetched env stats" and "success_rate stats = JNum x"
    and "generateReport rt stats = Inr report"
    and "fst (publish_step env (post_comment env) (getInput env ''github-token'') report (start cs)) = Inl e"
  shows "failed (run rt env (start cs)) = Some (''Action failed: '' @ message e)
    \<and> outputs (run rt env (start cs)) = eight_outputs rt stats x report
    \<and> comments (run rt env (start cs)) = cs
    \<and> summary (run rt env (start cs)) = None
    \<and> warnings (run rt env (start cs)) = []"
  using run_after_fetch(1-4) [OF assms(1,2,3), of cs] run_after_fetch(5) [OF assms] assms(4)
    publish_step_throw_comments [OF assms(4)] publish_step_throws [OF assms(4)]
  by simp

theorem publish_failure_reaches_catch_witness:
  "failed (run plain_runtime api_down_run (start [])) = Some ''Action failed: Bad credentials''
   \<and> map fst (outputs (run plain_runtime api_down_run (start []))) =
       [''status'', ''success-rate'', ''total-events'', ''delivered-events'', ''failed-events'',
        ''dlq-count'', ''endpoints-checked'', ''report'']
   \<and> comments (run plain_runtime api_down_run (start [])) = []
   \<and> summary (run plain_runtime api_down_run (start [])) = None"
proof -
  have f: "fetched api_down_run scenario_a"
    unfolding api_down_run_def by (rule fetched_replies(3) [where k = "''key''"]) simp_all
  obtain x report where r: "success_rate scenario_a = JNum x"
      "generateReport plain_runtime scenario_a = Inr report"
    using renders [OF renderable_scenarios(1)] by blast
  have p: "fst (publish_step api_down_run (post_comment api_down_run)
             (getInput api_down_run ''github-token'') report (start [])) = Inl bad_credentials"
    by (rule publish_list_error [where n = 7]) (simp_all add: api_down_run_def env_defs)
  show ?thesis
    using publish_failure_reaches_catch [OF f r p]
    by (simp add: eight_outputs_def bad_credentials_def)
qed

text \<open>
  C2 as stated fails: with the threshold gate off, a run whose snapshot is healthy is
  marked failed because listing the comments was refused, and nothing is logged as a
  warning.
\<close>

theorem publish_failure_changes_outcome:
  "fetched api_down_run scenario_a
   \<and> \<not> fail_on_unhealthy api_down_run
   \<and> failed (run plain_runtime api_down_run (start [])) = Some ''Action failed: Bad credentials''
   \<and> warnings (run plain_runtime api_down_run (start [])) = []"
proof -
  have f: "fetched api_down_run scenario_a"
    unfolding api_down_run_def by (rule fetched_replies(3) [where k = "''key''"]) simp_all
  obtain x report where r: "success_rate scenario_a = JNum x"
      "generateReport plain_runtime scenario_a = Inr report"
    using renders [OF renderable_scenarios(1)] by blast
  have p: "fst (publish_step api_down_run (post_comment api_down_run)
             (getInput api_down_run ''github-token'') report (start [])) = Inl bad_credentials"
    by (rule publish_list_error [where n = 7]) (simp_all add: api_down_run_def env_defs)
  have g: "\<not> fail_on_unhealthy api_down_run"
    by (simp add: api_down_run_def env_defs)
  show ?thesis
    using f g run_after_fetch(3,4) [OF f r, of "[]"] p publish_step_throws [OF p]
    by (simp add: bad_credentials_def)
qed


section \<open>The threshold gate\<close>

text \<open>
  C3, as the code has it. When the snapshot has arrived and rendered and publishing the
  comment raised nothing, the eight outputs are set, and the run is marked failed
  exactly when \<open>fail-on-unhealthy\<close> is \<open>true\<close> and the success rate is below the
  threshold, with a message that names the rate to two decimals and the threshold;
  otherwise the run is not failed, whatever the status.
\<close>

theorem threshold_gate_decides:
  assumes "fetched env stats" and "success_rate stats = JNum x"
    and "generateReport rt stats = Inr report"
    and "fst (publish_step env (post_comment env) (getInput env ''github-token'') report (start cs)) = Inr ()"
  shows "outputs (run rt env (start cs)) = eight_outputs rt stats x report
    \<and> (fail_on_unhealthy env \<and> js_lt x (fail_threshold rt env) \<longrightarrow>
         failed (run rt env (start cs)) =
           Some (''Webhook health check failed: success rate '' @ toFixed2 rt x
                   @ ''% is below threshold '' @ numberToString rt (fail_threshold rt env) @ ''%''))
    \<and> (\<not> (fail_on_unhealthy env \<and> js_lt x (fail_threshold rt env)) \<longrightarrow>
         failed (run rt env (start cs)) = None)"
  using run_after_fetch(1,3) [OF assms(1,2,3), of cs] assms(4)
  by (simp add: gate_message_def)

theorem threshold_gate_decides_witness:
  "failed (run plain_runtime gated_run (start [])) =
     Some ''Webhook health check failed: success rate 80.00% is below threshold 90%''
   \<and> map fst (outputs (run plain_runtime gated_run (start []))) =
       [''status'', ''success-rate'', ''total-events'', ''delivered-events'', ''failed-events'',
        ''dlq-count'', ''endpoints-checked'', ''report'']
   \<and> failed (run plain_runtime plain_run (start [])) = None
   \<and> map_of (outputs (run plain_runtime plain_run (start []))) ''status'' = Some (JStr ''unhealthy'')"
proof -
  have f: "fetched gated_run scenario_c" "fetched plain_run scenario_c"
    unfolding gated_run_def plain_run_def
    by (rule fetched_replies(1) [where k = "''key''"]; simp)+
  obtain report where r: "generateReport plain_runtime scenario_c = Inr report"
    using renders [OF renderable_scenarios(2)] by blast
  have x: "success_rate scenario_c = JNum (Fin 80)"
    by (simp add: scenario_c_def)
  have p: "fst (publish_step gated_run (post_comment gated_run) (getInput gated_run ''github-token'')
             report (start [])) = Inr ()"
      "fst (publish_step plain_run (post_comment plain_run) (getInput plain_run ''github-token'')
             report (start [])) = Inr ()"
    by (rule publish_not_requested; simp add: gated_run_def plain_run_def env_defs)+
  have g: "fail_on_unhealthy gated_run" "\<not> fail_on_unhealthy plain_run"
    by (simp_all add: gated_run_def plain_run_def env_defs)
  have st: "determineStatus plain_runtime (success_rate scenario_c) (dlq_count scenario_c) = ''unhealthy''"
    by (simp add: scenario_c_def determineStatus_def js_ge_def)
  have fx: "toFixed2 plain_runtime (Fin 80) = ''80.00''" "numberToString plain_runtime (Fin 90) = ''90''"
    by (simp_all add: toFixed2_def numberToString_def digit_char_def)
  show ?thesis
    using threshold_gate_decides [OF f(1) x r p(1)]
      threshold_gate_decides [OF f(2) x r p(2)] g
    by (simp add: threshold_90 eight_outputs_def st fx)
qed

text \<open>
  C3 as stated fails: in scenario C with the gate on, a refusal of the comment API
  fails the run with a message that names neither the rate nor the threshold; and
  with the gate off, the same refusal fails the run.
\<close>

theorem publish_failure_hides_gate:
  "fetched api_down_gated_run scenario_c
   \<and> fail_on_unhealthy api_down_gated_run
   \<and> js_lt (Fin 80) (fail_threshold plain_runtime api_down_gated_run)
   \<and> success_rate scenario_c = JNum (Fin 80)
   \<and> failed (run plain_runtime api_down_gated_run (start [])) = Some ''Action failed: Bad credentials''
   \<and> fetched api_down_ungated_run scenario_c
   \<and> \<not> fail_on_unhealthy api_down_ungated_run
   \<and> failed (run plain_runtime api_down_ungated_run (start [])) = Some ''Action failed: Bad credentials''"
proof -
  have f': "fetched api_down_ungated_run scenario_c"
    unfolding api_down_ungated_run_def by (rule fetched_replies(3) [where k = "''key''"]) simp_all
  have g': "\<not> fail_on_unhealthy api_down_ungated_run"
    by (simp add: api_down_ungated_run_def env_defs)
  have f: "fetched api_down_gated_run scenario_c"
    unfolding api_down_gated_run_def by (rule fetched_replies(3) [where k = "''key''"]) simp_all
  obtain report where r: "generateReport plain_runtime scenario_c = Inr report"
    using renders [OF renderable_scenarios(2)] by blast
  have x: "success_rate scenario_c = JNum (Fin 80)"
    by (simp add: scenario_c_def)
  have p: "fst (publish_step api_down_gated_run (post_comment api_down_gated_run)
             (getInput api_down_gated_run ''github-token'') report (start [])) = Inl bad_credentials"
    by (rule publish_list_error [where n = 7]) (simp_all add: api_down_gated_run_def env_defs)
  have p': "fst (publish_step api_down_ungated_run (post_comment api_down_ungated_run)
             (getInput api_down_ungated_run ''github-token'') report (start [])) = Inl bad_credentials"
    by (rule publish_list_error [where n = 7]) (simp_all add: api_down_ungated_run_def env_defs)
  have g: "fail_on_unhealthy api_down_gated_run"
    by (simp add: api_down_gated_run_def env_defs)
  show ?thesis
    using f g x run_after_fetch(3) [OF f x r, of "[]"] p
      f' g' run_after_fetch(3) [OF f' x r, of "[]"] p'
    by (simp add: bad_credentials_def threshold_90)
qed




section \<open>A comment requested with no token\<close>

text \<open>
  C4, as the code has it. When the snapshot has arrived and rendered, \<open>post-comment\<close> is
  \<open>true\<close> and no \<open>github-token\<close> is supplied, the run logs the warning
  \<open>github-token is required to post PR comments\<close>, leaves the comments alone, sets
  the eight outputs, and is failed or not by the threshold gate alone.
\<close>

theorem missing_token_warns:
  assumes "fetched env stats" and "success_rate stats = JNum x"
    and "generateReport rt stats = Inr report"
    and "post_comment env" and "getInput env ''github-token'' = []"
  shows "warnings (run rt env (start cs)) = [''github-token is required to post PR comments'']
    \<and> comments (run rt env (start cs)) = cs
    \<and> outputs (run rt env (start cs)) = eight_outputs rt stats x report
    \<and> failed (run rt env (start cs)) =
        (if fail_on_unhealthy env \<and> js_lt x (fail_threshold rt env)
         then Some (gate_message rt x (fail_threshold rt env)) else None)"
  using run_after_fetch(1-4) [OF assms(1,2,3), of cs] assms(4,5)
  by (simp add: publish_step_def)

theorem missing_token_warns_witness:
  "warnings (run plain_runtime tokenless_run (start [])) =
     [''github-token is required to post PR comments'']
   \<and> comments (run plain_runtime tokenless_run (start [])) = []
   \<and> map_of (outputs (run plain_runtime tokenless_run (start []))) ''status'' = Some (JStr ''healthy'')
   \<and> failed (run plain_runtime tokenless_run (start [])) = None"
proof -
  have f: "fetched tokenless_run scenario_a"
    unfolding tokenless_run_def by (rule fetched_replies(1) [where k = "''key''"]) simp_all
  obtain report where r: "generateReport plain_runtime scenario_a = Inr report"
    using renders [OF renderable_scenarios(1)] by blast
  have x: "success_rate scenario_a = JNum (Fin (199 / 2))"
    by (simp add: scenario_a_def)
  have i: "post_comment tokenless_run" "getInput tokenless_run ''github-token'' = []"
    "\<not> fail_on_unhealthy tokenless_run"
    by (simp_all add: tokenless_run_def env_defs)
  have st: "determineStatus plain_runtime (success_rate scenario_a) (dlq_count scenario_a) = ''healthy''"
    by (simp add: scenario_a_def determineStatus_def js_ge_def)
  show ?thesis
    using missing_token_warns [OF f x r i(1,2), of "[]"] i(3)
    by (simp add: eight_outputs_def st)
qed

text \<open>
  C4 as stated fails: a run that asks for a comment with no token, on a healthy
  snapshot, is not marked failed.
\<close>

theorem missing_token_does_not_fail:
  "post_comment tokenless_run
   \<and> getInput tokenless_run ''github-token'' = []
   \<and> failed (run plain_runtime tokenless_run (start [])) = None"
proof -
  have f: "fetched tokenless_run scenario_a"
    unfolding tokenless_run_def by (rule fetched_replies(1) [where k = "''key''"]) simp_all
  obtain x report where r: "success_rate scenario_a = JNum x"
      "generateReport plain_runtime scenario_a = Inr report"
    using renders [OF renderable_scenarios(1)] by blast
  have i: "post_comment tokenless_run" "getInput tokenless_run ''github-token'' = []"
    "\<not> fail_on_unhealthy tokenless_run"
    by (simp_all add: tokenless_run_def env_defs)
  show ?thesis
    using run_after_fetch(3) [OF f r, of "[]"] i
    by (simp add: publish_step_def)
qed


section \<open>The publisher\<close>

lemma find_first:
  "\<forall>p\<in>set pre. \<not> P p \<Longrightarrow> P c \<Longrightarrow> find P (pre @ c # post) = Some c"
  by (induction pre) simp_all

lemma find_split:
  "find P xs = Some c \<Longrightarrow> \<exists>pre post. xs = pre @ c # post \<and> P c \<and> (\<forall>p\<in>set pre. \<not> P p)"
proof (induction xs)
  case Nil
  then show ?case by simp
next
  case (Cons a xs)
  show ?case
  proof (cases "P a")
    case True
    with Cons.prems have "a = c" by simp
    with True have "a # xs = [] @ c # xs \<and> P c \<and> (\<forall>p\<in>set []. \<not> P p)" by simp
    then show ?thesis by blast
  next
    case False
    with Cons obtain pre post where "xs = pre @ c # post" "P c" "\<forall>p\<in>set pre. \<not> P p"
      by auto
    with False have "a # xs = (a # pre) @ c # post \<and> P c \<and> (\<forall>p\<in>set (a # pre). \<not> P p)"
      by simp
    then show ?thesis by blast
  qed
qed

lemma set_body_other:
  "cid \<notin> comment_id ` set cs \<Longrightarrow> set_body cid b cs = cs"
  by (induction cs) (auto simp: set_body_def)

lemma set_body_distinct:
  assumes "distinct (map comment_id (pre @ c # post))"
  shows "set_body (comment_id c) b (pre @ c # post) = pre @ c\<lparr>body := b\<rparr> # post"
proof -
  from assms have "comment_id c \<notin> comment_id ` set pre" "comment_id c \<notin> comment_id ` set post"
    by auto
  then have "set_body (comment_id c) b pre = pre" "set_body (comment_id c) b post = post"
    by (simp_all add: set_body_other)
  then show ?thesis
    by (simp add: set_body_def)
qed

lemma set_body_ids [simp]: "map comment_id (set_body cid b cs) = map comment_id cs"
  by (induction cs) (simp_all add: set_body_def)

lemma fold_max_ge: "x \<in> set xs \<Longrightarrow> x \<le> fold max xs (a::nat)"
proof (induction xs arbitrary: a)
  case Nil
  then show ?case by simp
next
  case (Cons y ys)
  have mono: "\<And>b. b \<le> fold max ys b"
  proof -
    fix b :: nat show "b \<le> fold max ys b"
    proof (induction ys arbitrary: b)
      case Nil show ?case by simp
    next
      case (Cons z zs)
      have "b \<le> max z b" by simp
      also have "\<dots> \<le> fold max zs (max z b)" by (rule Cons.IH)
      finally show ?case by simp
    qed
  qed
  show ?case
  proof (cases "x = y")
    case True
    have "y \<le> max y a" by simp
    also have "\<dots> \<le> fold max ys (max y a)" by (rule mono)
    finally show ?thesis using True by simp
  next
    case False
    with Cons.prems have "x \<in> set ys" by simp
    then show ?thesis using Cons.IH by simp
  qed
qed

lemma fresh_id_new: "fresh_id cs \<notin> comment_id ` set cs"
proof
  assume "fresh_id cs \<in> comment_id ` set cs"
  then have "fresh_id cs \<in> set (map comment_id cs)" by simp
  then have "fresh_id cs \<le> fold max (map comment_id cs) 0" by (rule fold_max_ge)
  then show False by (simp add: fresh_id_def)
qed

lemma postPRComment_no_pr:
  "pull_request env = None \<Longrightarrow>
   postPRComment env tok report s = (Inr (), info ''Not a pull request, skipping comment'' s)"
  by (simp add: postPRComment_def)

lemma take_through:
  assumes "length pre < n"
  shows "take n (pre @ c # post) = pre @ c # take (n - Suc (length pre)) post"
proof -
  from assms have "n - length pre = Suc (n - Suc (length pre))"
    by simp
  then show ?thesis
    using assms by simp
qed

lemma postPRComment_updates:
  assumes "pull_request env = Some n" and "listComments_error env = None"
    and "updateComment_error env = None"
    and "distinct (map comment_id (comments s))"
    and "comments s = pre @ c # post"
    and "length pre < per_page"
    and "\<forall>p\<in>set pre. \<not> includes_str (body p) marker"
    and "includes_str (body c) marker"
  shows "postPRComment env tok report s =
     (Inr (), info (''Updated existing PR comment #'' @ show_nat (comment_id c))
                (s\<lparr>comments := pre @ c\<lparr>body := report\<rparr> # post\<rparr>))"
proof -
  have "take per_page (comments s) = pre @ c # take (per_page - Suc (length pre)) post"
    unfolding assms(5) using assms(6) by (rule take_through)
  then have "find (\<lambda>c. includes_str (body c) marker) (take per_page (comments s)) = Some c"
    using find_first [where P = "\<lambda>c. includes_str (body c) marker", OF assms(7,8)] by simp
  moreover have "set_body (comment_id c) report (comments s) = pre @ c\<lparr>body := report\<rparr> # post"
    using assms(4) unfolding assms(5) by (rule set_body_distinct)
  ultimately show ?thesis
    using assms(1,2,3) by (simp add: postPRComment_def listComments_def updateComment_def)
qed

lemma postPRComment_creates:
  assumes "pull_request env = Some n" and "listComments_error env = None"
    and "createComment_error env = None"
    and "health_comments (take per_page (comments s)) = []"
  shows "postPRComment env tok report s =
     (Inr (), info (''Created new PR comment on PR #'' @ show_nat n)
                (s\<lparr>comments := comments s @
                      [\<lparr>comment_id = fresh_id (comments s), author = token_user env tok, body = report\<rparr>]\<rparr>))"
proof -
  have "find (\<lambda>c. includes_str (body c) marker) (take per_page (comments s)) = None"
    using assms(4) by (simp add: health_comments_def find_None_iff filter_empty_conv)
  then show ?thesis
    using assms(1,2,3) by (simp add: postPRComment_def listComments_def createComment_def)
qed

text \<open>One run of the publisher: what it can do to the comments.\<close>

lemma postPRComment_cases:
  assumes d: "distinct (map comment_id (comments s))"
  shows "comments (snd (postPRComment env tok report s)) = comments s
    \<or> (\<exists>pre c post. comments s = pre @ c # post \<and> length pre < per_page
          \<and> (\<forall>p\<in>set pre. \<not> includes_str (body p) marker)
          \<and> includes_str (body c) marker
          \<and> comments (snd (postPRComment env tok report s)) = pre @ c\<lparr>body := report\<rparr> # post)
    \<or> (health_comments (take per_page (comments s)) = []
          \<and> comments (snd (postPRComment env tok report s)) =
              comments s @ [\<lparr>comment_id = fresh_id (comments s), author = token_user env tok, body = report\<rparr>])"
proof (cases "pull_request env")
  case None
  then show ?thesis by (simp add: postPRComment_no_pr)
next
  case (Some n)
  show ?thesis
  proof (cases "listComments_error env")
    case (Some e)
    with \<open>pull_request env = Some n\<close> show ?thesis
      by (simp add: postPRComment_def listComments_def)
  next
    case None
    show ?thesis
    proof (cases "find (\<lambda>c. includes_str (body c) marker) (take per_page (comments s))")
      case nf: None
      then have h: "health_comments (take per_page (comments s)) = []"
        by (simp add: health_comments_def find_None_iff filter_empty_conv)
      show ?thesis
      proof (cases "createComment_error env")
        case (Some e)
        with nf None \<open>pull_request env = Some n\<close> show ?thesis
          by (simp add: postPRComment_def listComments_def createComment_def)
      next
        case cn: None
        from postPRComment_creates [OF \<open>pull_request env = Some n\<close> None cn h] h
        show ?thesis by simp
      qed
    next
      case (Some c)
      then obtain pre rest where sp: "take per_page (comments s) = pre @ c # rest"
          "includes_str (body c) marker" "\<forall>p\<in>set pre. \<not> includes_str (body p) marker"
        using find_split [of "\<lambda>c. includes_str (body c) marker" "take per_page (comments s)" c]
        by blast
      have "length (take per_page (comments s)) \<le> per_page"
        by simp
      then have short: "length pre < per_page"
        unfolding sp(1) by simp
      have "comments s = take per_page (comments s) @ drop per_page (comments s)"
        by simp
      then have whole: "comments s = pre @ c # (rest @ drop per_page (comments s))"
        unfolding sp(1) by simp
      show ?thesis
      proof (cases "updateComment_error env")
        case (Some e)
        with \<open>find _ _ = Some c\<close> None \<open>pull_request env = Some n\<close> show ?thesis
          by (simp add: postPRComment_def listComments_def updateComment_def)
      next
        case un: None
        from postPRComment_updates [OF \<open>pull_request env = Some n\<close> None un d whole short sp(3) sp(2)]
          whole short sp
        have "comments s = pre @ c # (rest @ drop per_page (comments s)) \<and> length pre < per_page
          \<and> (\<forall>p\<in>set pre. \<not> includes_str (body p) marker)
          \<and> includes_str (body c) marker
          \<and> comments (snd (postPRComment env tok report s))
              = pre @ c\<lparr>body := report\<rparr> # (rest @ drop per_page (comments s))"
          by simp
        then show ?thesis by blast
      qed
    qed
  qed
qed

lemma health_comments_Nil [simp]: "health_comments [] = []"
  by (simp add: health_comments_def)

lemma health_comments_append [simp]:
  "health_comments (xs @ ys) = health_comments xs @ health_comments ys"
  by (simp add: health_comments_def)

lemma health_comments_Cons:
  "health_comments (c # cs) = (if includes_str (body c) marker then [c] else []) @ health_comments cs"
  by (simp add: health_comments_def)

lemma health_comments_empty:
  "(health_comments cs = []) = (\<forall>p\<in>set cs. \<not> includes_str (body p) marker)"
  by (simp add: health_comments_def filter_empty_conv)

lemma within_page_through:
  assumes "length pre < per_page" and "includes_str (body c) marker"
  shows "within_page (pre @ c # post)"
proof -
  have "take per_page (pre @ c # post) = pre @ c # take (per_page - Suc (length pre)) post"
    using assms(1) by (rule take_through)
  with assms(2) show ?thesis
    by (simp add: within_page_def health_comments_Cons)
qed

lemma within_page_fresh:
  assumes "within_page cs" and "health_comments (take per_page cs) = []"
  shows "health_comments cs = []" and "length cs < per_page"
  using assms by (simp_all add: within_page_def)

text \<open>
  One run of the publisher, on comments within the page, with a report that contains
  the marker: the comments stay within the page and their ids distinct; when a
  comment has the marker none is created and as many have it afterwards; when none
  has it at most one is created.
\<close>

lemma postPRComment_step:
  fixes env :: env and tok :: string
  assumes d: "distinct (map comment_id (comments s))"
    and w: "within_page (comments s)"
    and m: "includes_str report marker"
  defines "s' \<equiv> snd (postPRComment env tok report s)"
  shows "distinct (map comment_id (comments s'))"
    and "within_page (comments s')"
    and "health_comments (comments s) \<noteq> [] \<Longrightarrow>
           length (health_comments (comments s')) = length (health_comments (comments s))
           \<and> length (comments s') = length (comments s)"
    and "health_comments (comments s) = [] \<Longrightarrow>
           (health_comments (comments s') = [] \<and> length (comments s') = length (comments s))
           \<or> (length (health_comments (comments s')) = 1
               \<and> length (comments s') = Suc (length (comments s)))"
proof -
  consider (same) "comments s' = comments s"
    | (upd) pre c post where "comments s = pre @ c # post" "length pre < per_page"
        "\<forall>p\<in>set pre. \<not> includes_str (body p) marker" "includes_str (body c) marker"
        "comments s' = pre @ c\<lparr>body := report\<rparr> # post"
    | (new) "health_comments (comments s) = []" "length (comments s) < per_page"
        "comments s' = comments s @
           [\<lparr>comment_id = fresh_id (comments s), author = token_user env tok, body = report\<rparr>]"
    using postPRComment_cases [OF d, of env tok report] within_page_fresh [OF w]
    unfolding s'_def by blast
  note cases = this
  show "distinct (map comment_id (comments s'))"
  proof (cases rule: cases)
    case same
    with d show ?thesis by simp
  next
    case upd
    with d show ?thesis by simp
  next
    case new
    with d fresh_id_new [of "comments s"] show ?thesis by simp
  qed
  show "within_page (comments s')"
  proof (cases rule: cases)
    case same
    with w show ?thesis by simp
  next
    case upd
    have "within_page (pre @ c\<lparr>body := report\<rparr> # post)"
      using upd(2) m by (intro within_page_through) simp_all
    with upd(5) show ?thesis by simp
  next
    case new
    have "within_page (comments s @
        [\<lparr>comment_id = fresh_id (comments s), author = token_user env tok, body = report\<rparr>])"
      using new(2) m by (intro within_page_through) simp_all
    with new(3) show ?thesis by simp
  qed
  show "length (health_comments (comments s')) = length (health_comments (comments s))
        \<and> length (comments s') = length (comments s)"
    if "health_comments (comments s) \<noteq> []"
  proof (cases rule: cases)
    case same
    then show ?thesis by simp
  next
    case upd
    with m show ?thesis by (simp add: health_comments_Cons)
  next
    case new
    with that show ?thesis by simp
  qed
  show "(health_comments (comments s') = [] \<and> length (comments s') = length (comments s))
           \<or> (length (health_comments (comments s')) = 1
               \<and> length (comments s') = Suc (length (comments s)))"
    if "health_comments (comments s) = []"
  proof (cases rule: cases)
    case same
    with that show ?thesis by simp
  next
    case upd
    with that show ?thesis by (simp add: health_comments_Cons)
  next
    case new
    with m show ?thesis by (simp add: health_comments_Cons)
  qed
qed

lemma endpoint_rows_prefix:
  "endpoint_rows rt eps acc = Inr r \<Longrightarrow> prefix acc r"
proof (induction eps arbitrary: acc)
  case Nil
  then show ?case by simp
next
  case (Cons ep eps)
  then obtain row where "endpoint_row rt ep = Inr row" "endpoint_rows rt eps (acc @ row) = Inr r"
    by (auto simp: bindE_Inr)
  with Cons.IH [of "acc @ row"] have "prefix (acc @ row) r" by simp
  then show ?case by (rule append_prefixD)
qed

lemma endpoints_section_prefix:
  "endpoints_section rt eps acc = Inr r \<Longrightarrow> prefix acc r"
proof (cases eps)
  case NoEndpoints
  assume "endpoints_section rt eps acc = Inr r"
  with NoEndpoints show ?thesis by (simp add: endpoints_section_def)
next
  case NotIterable
  assume "endpoints_section rt eps acc = Inr r"
  with NotIterable show ?thesis by (simp add: endpoints_section_def)
next
  case (Endpoints l)
  assume a: "endpoints_section rt eps acc = Inr r"
  show ?thesis
  proof (cases "l = []")
    case True
    with a Endpoints show ?thesis by (simp add: endpoints_section_def)
  next
    case False
    with a Endpoints obtain r' where r': "endpoint_rows rt l
               (acc @ ''### Endpoints\<newline>\<newline>''
                  @ ''| Name | Provider | Status | Success Rate |\<newline>''
                  @ ''|------|----------|--------|-------------|\<newline>'') = Inr r'"
        "r = r' @ ''\<newline>''"
      by (auto simp: endpoints_section_def bindE_Inr)
    from endpoint_rows_prefix [OF r'(1)] have "prefix acc r'"
      by (rule append_prefixD)
    with r'(2) show ?thesis by (simp add: prefix_prefix)
  qed
qed

lemma includes_through_prefix:
  assumes "prefix acc r" and "includes_str acc m"
  shows "includes_str (r @ t) m"
proof -
  from assms(1) obtain z where z: "r = acc @ z"
    by (auto simp: prefix_def)
  from assms(2) obtain ps ss where "acc = ps @ m @ ss"
    by (auto simp: includes_str_def sublist_def)
  with z have "r @ t = ps @ m @ (ss @ z @ t)"
    by simp
  then show ?thesis
    unfolding includes_str_def sublist_def by blast
qed

lemma heading_has_marker:
  "includes_str (''## '' @ emoji @ '' EventDock Webhook Health Report\<newline>\<newline>'' @ rest) marker"
proof -
  have "''## '' @ emoji @ '' EventDock Webhook Health Report\<newline>\<newline>'' @ rest
      = (''## '' @ emoji @ '' '') @ marker @ (''\<newline>\<newline>'' @ rest)"
    by (simp add: marker_def)
  then show ?thesis
    unfolding includes_str_def sublist_def by blast
qed

lemma generateReport_has_marker:
  assumes "generateReport rt stats = Inr report"
  shows "includes_str report marker"
  using assms
  unfolding generateReport_def Let_def bindE_Inr
  by (elim exE conjE)
     (auto intro!: includes_through_prefix [OF endpoints_section_prefix heading_has_marker])



text \<open>What a run does to the comments: nothing, or what the publisher does with a report
  that contains the marker.\<close>

lemma comments_run_cases:
  "comments (run rt env (start cs)) = cs
   \<or> (\<exists>tok report. includes_str report marker \<and>
         comments (run rt env (start cs)) = comments (snd (postPRComment env tok report (start cs))))"
proof (cases "inputs env ''api-key'' = []")
  case True
  then show ?thesis by (simp add: run_def run_try_def getInput_required_def)
next
  case False
  show ?thesis
  proof (cases "getHealthStats env (api_url env) (getInput env ''api-key'') (getInput env ''endpoint-id'')")
    case (Inl e)
    with False have "fetch_failed env e" by (simp add: fetch_failed_def)
    then show ?thesis by (simp add: run_fetch_failed)
  next
    case (Inr stats)
    with False have f: "fetched env stats" by (simp add: fetched_def)
    show ?thesis
    proof (cases "generateReport rt stats")
      case (Inl e)
      from run_try_not_rendered [OF f Inl, of "start cs"] show ?thesis
        by (auto simp: run_def)
    next
      case (Inr report)
      obtain x where x: "success_rate stats = JNum x"
        using generateReport_number [OF Inr] by blast
      have m: "includes_str report marker"
        using Inr by (rule generateReport_has_marker)
      have "comments (snd (publish_step env (post_comment env) (getInput env ''github-token'') report (start cs)))
              = cs
          \<or> comments (snd (publish_step env (post_comment env) (getInput env ''github-token'') report (start cs)))
              = comments (snd (postPRComment env (getInput env ''github-token'') report (start cs)))"
        by (simp add: publish_step_def)
      with m show ?thesis
        unfolding run_after_fetch(2) [OF f x Inr] by blast
    qed
  qed
qed

lemma run_step:
  fixes rt :: js_runtime and env :: env
  assumes d: "distinct (map comment_id cs)" and w: "within_page cs"
  defines "cs' \<equiv> comments (run rt env (start cs))"
  shows "distinct (map comment_id cs')"
    and "within_page cs'"
    and "health_comments cs \<noteq> [] \<Longrightarrow>
           length (health_comments cs') = length (health_comments cs) \<and> length cs' = length cs"
    and "health_comments cs = [] \<Longrightarrow>
           (health_comments cs' = [] \<and> length cs' = length cs)
           \<or> (length (health_comments cs') = 1 \<and> length cs' = Suc (length cs))"
proof -
  have d': "distinct (map comment_id (comments (start cs)))"
    using d by simp
  have w': "within_page (comments (start cs))"
    using w by simp
  consider (same) "cs' = cs"
    | (pub) tok report where "includes_str report marker"
        "cs' = comments (snd (postPRComment env tok report (start cs)))"
    using comments_run_cases [of rt env cs] unfolding cs'_def by blast
  note cases = this
  show "distinct (map comment_id cs')"
  proof (cases rule: cases)
    case same
    with d show ?thesis by simp
  next
    case pub
    with postPRComment_step(1) [OF d' w' pub(1), of env tok] show ?thesis by simp
  qed
  show "within_page cs'"
  proof (cases rule: cases)
    case same
    with w show ?thesis by simp
  next
    case pub
    with postPRComment_step(2) [OF d' w' pub(1), of env tok] show ?thesis by simp
  qed
  show "length (health_comments cs') = length (health_comments cs) \<and> length cs' = length cs"
    if "health_comments cs \<noteq> []"
  proof (cases rule: cases)
    case same
    then show ?thesis by simp
  next
    case pub
    with postPRComment_step(3) [OF d' w' pub(1), of env tok] that show ?thesis by simp
  qed
  show "(health_comments cs' = [] \<and> length cs' = length cs)
           \<or> (length (health_comments cs') = 1 \<and> length cs' = Suc (length cs))"
    if "health_comments cs = []"
  proof (cases rule: cases)
    case same
    with that show ?thesis by simp
  next
    case pub
    with postPRComment_step(4) [OF d' w' pub(1), of env tok] that show ?thesis by simp
  qed
qed

lemma step_runs_invariant:
  assumes "distinct (map comment_id cs)" and "within_page cs"
  shows "(health_comments cs \<noteq> [] \<longrightarrow>
            length (step_runs rt envs cs) = length cs \<and>
            length (health_comments (step_runs rt envs cs)) = length (health_comments cs))
       \<and> (health_comments cs = [] \<longrightarrow>
            length (step_runs rt envs cs) \<le> Suc (length cs) \<and>
            length (health_comments (step_runs rt envs cs)) \<le> 1)"
  using assms
proof (induction envs arbitrary: cs)
  case Nil
  then show ?case by simp
next
  case (Cons env envs)
  define cs' where "cs' = comments (run rt env (start cs))"
  note step = run_step [OF Cons.prems, of rt env, folded cs'_def]
  note ih = Cons.IH [OF step(1) step(2)]
  have run: "step_runs rt (env # envs) cs = step_runs rt envs cs'"
    by (simp add: cs'_def)
  show ?case
  proof (cases "health_comments cs = []")
    case True
    from step(4) [OF True] consider "health_comments cs' = []" "length cs' = length cs"
      | "length (health_comments cs') = 1" "length cs' = Suc (length cs)"
      by blast
    then show ?thesis
    proof cases
      case 1
      with ih True show ?thesis unfolding run by simp
    next
      case 2
      then have "health_comments cs' \<noteq> []" by auto
      with ih 2 True show ?thesis unfolding run by simp
    qed
  next
    case False
    from step(3) [OF False] have same: "length (health_comments cs') = length (health_comments cs)"
        "length cs' = length cs"
      by simp_all
    with False have "health_comments cs' \<noteq> []" by auto
    with ih same False show ?thesis unfolding run by simp
  qed
qed

lemma includes_short: "includes_str short_report marker"
proof -
  have "short_report = ''## :x: '' @ marker @ []"
    by (simp add: short_report_def marker_def)
  then show ?thesis unfolding includes_str_def sublist_def by blast
qed

lemma includes_human: "includes_str (body human_note) marker"
proof -
  have "body human_note = ''Where does the '' @ marker @ '' get posted?''"
    by (simp add: human_note_def marker_def)
  then show ?thesis unfolding includes_str_def sublist_def by blast
qed

lemma not_includes_other: "health_comments [other_note] = []"
  by (simp add: health_comments_def other_note_def includes_str_def marker_def sublist_code)

lemma health_comments_take:
  "health_comments cs = [] \<Longrightarrow> health_comments (take n cs) = []"
  by (auto simp: health_comments_empty dest: in_set_takeD)

text \<open>The comments of a crowded pull request, and a run that publishes there.\<close>

lemma length_chatter [simp]: "length (chatter n) = n"
  by (induction n) simp_all

lemma health_comments_chatter [simp]: "health_comments (chatter n) = []"
proof (induction n)
  case 0
  show ?case by simp
next
  case (Suc n)
  have "\<not> includes_str ''LGTM'' marker"
    by (simp add: includes_str_def marker_def sublist_code)
  with Suc show ?case by (simp add: health_comments_Cons)
qed

lemma ids_chatter: "map comment_id (chatter n) = [1..<Suc n]"
  by (induction n) simp_all

lemma fold_max_chatter: "fold max (map comment_id (chatter n)) a = max n a"
  by (induction n arbitrary: a) auto

lemma take_chatter: "take per_page (chatter 30 @ cs) = chatter 30"
  by (simp add: per_page_def)

lemma pr_run_env:
  "pull_request pr_run = Some 7" "listComments_error pr_run = None"
  "updateComment_error pr_run = None" "createComment_error pr_run = None"
  "token_user pr_run tok = ''github-actions[bot]''"
  by (simp_all add: pr_run_def on_pull_request_def quiet_env_def)

lemma pr_run_publishes:
  "\<exists>report. includes_str report marker \<and>
     (\<forall>cs. comments (run plain_runtime pr_run (start cs))
            = comments (snd (postPRComment pr_run ''token'' report (start cs))))"
proof -
  obtain x report where r: "success_rate scenario_a = JNum x"
      "generateReport plain_runtime scenario_a = Inr report"
    using renders [OF renderable_scenarios(1)] by blast
  have f: "fetched pr_run scenario_a"
    unfolding pr_run_def by (rule fetched_replies(2) [where k = "''key''"]) simp_all
  have i: "post_comment pr_run" "getInput pr_run ''github-token'' = ''token''"
    by (simp_all add: pr_run_def env_defs)
  have "comments (run plain_runtime pr_run (start cs))
            = comments (snd (postPRComment pr_run ''token'' report (start cs)))" for cs
    using run_after_fetch(2) [OF f r, of cs] i by (simp add: publish_step_def)
  moreover have "includes_str report marker"
    using r(2) by (rule generateReport_has_marker)
  ultimately show ?thesis by blast
qed

lemma crowded_run:
  assumes "take per_page cs = chatter 30"
  shows "\<exists>c. includes_str (body c) marker \<and> comments (run plain_runtime pr_run (start cs)) = cs @ [c]"
proof -
  obtain report where m: "includes_str report marker"
    and run: "\<And>cs. comments (run plain_runtime pr_run (start cs))
            = comments (snd (postPRComment pr_run ''token'' report (start cs)))"
    using pr_run_publishes by blast
  have none: "health_comments (take per_page (comments (start cs))) = []"
    using assms by simp
  have "comments (run plain_runtime pr_run (start cs))
      = cs @ [\<lparr>comment_id = fresh_id cs, author = token_user pr_run ''token'', body = report\<rparr>]"
    unfolding run by (simp add: postPRComment_creates [OF pr_run_env(1,2,4) none])
  with m show ?thesis by simp
qed




section \<open>The marker scan\<close>

text \<open>
  C9, as the code has it. The scan looks for the marker anywhere in a body and at
  nothing else: whoever wrote the first comment whose body contains the marker, with
  whatever text around it, when that comment is among the first 30 of the pull
  request it is the one selected, and its whole body is replaced by the report (its
  id and author stay).
\<close>

theorem marker_scan_takes_any_comment:
  assumes "pull_request env = Some n" and "listComments_error env = None"
    and "updateComment_error env = None"
    and "distinct (map comment_id (comments s))"
    and "comments s = pre @ c # post"
    and "length pre < per_page"
    and "health_comments pre = []"
    and "body c = before @ marker @ after"
  shows "find (\<lambda>c. includes_str (body c) marker) (comments s) = Some c
    \<and> fst (postPRComment env tok report s) = Inr ()
    \<and> comments (snd (postPRComment env tok report s))
        = pre @ \<lparr>comment_id = comment_id c, author = author c, body = report\<rparr> # post"
proof -
  have inc: "includes_str (body c) marker"
    unfolding includes_str_def sublist_def assms(8) by blast
  have none: "\<forall>p\<in>set pre. \<not> includes_str (body p) marker"
    using assms(7) by (simp add: health_comments_empty)
  have "find (\<lambda>c. includes_str (body c) marker) (comments s) = Some c"
    unfolding assms(5) using none inc by (rule find_first)
  then show ?thesis
    using postPRComment_updates [OF assms(1,2,3,4,5,6) none inc, of tok report] by simp
qed

theorem marker_scan_takes_any_comment_witness:
  "author human_note = ''alice''
   \<and> find (\<lambda>c. includes_str (body c) marker) [other_note, human_note] = Some human_note
   \<and> comments (snd (postPRComment pr_run ''token'' short_report (start [other_note, human_note])))
       = [other_note, \<lparr>comment_id = 11, author = ''alice'', body = short_report\<rparr>]"
proof -
  have env: "pull_request pr_run = Some 7" "listComments_error pr_run = None"
    "updateComment_error pr_run = None"
    by (simp_all add: pr_run_def on_pull_request_def quiet_env_def)
  have ids: "distinct (map comment_id (comments (start [other_note, human_note])))"
    by (simp add: other_note_def human_note_def)
  have cs: "comments (start [other_note, human_note]) = [other_note] @ human_note # []"
    by simp
  have short: "length [other_note] < per_page"
    by (simp add: per_page_def)
  have b: "body human_note = ''Where does the '' @ marker @ '' get posted?''"
    by (simp add: human_note_def marker_def)
  show ?thesis
    using marker_scan_takes_any_comment [OF env ids cs short not_includes_other b,
        of "''token''" short_report]
    by (simp add: human_note_def)
qed

text \<open>
  C9 as stated fails. The first comment of the pull request that contains the phrase
  is a person's, and it is the 31st: the listing does not return it, the scan finds
  nothing, and the publisher leaves it as it is and creates a new comment.
\<close>

theorem marker_scan_stops_at_first_page:
  "health_comments crowded_thread = [late_note]
   \<and> author late_note = ''alice''
   \<and> comments (snd (postPRComment pr_run ''token'' short_report (start crowded_thread)))
       = crowded_thread @ [\<lparr>comment_id = 32, author = ''github-actions[bot]'', body = short_report\<rparr>]"
proof -
  have "body late_note = ''Where does the '' @ marker @ '' get posted?''"
    by (simp add: late_note_def marker_def)
  then have "includes_str (body late_note) marker"
    unfolding includes_str_def sublist_def by blast
  then have only: "health_comments crowded_thread = [late_note]"
    by (simp add: crowded_thread_def health_comments_Cons)
  have none: "health_comments (take per_page (comments (start crowded_thread))) = []"
    using take_chatter [of "[late_note]"] by (simp add: crowded_thread_def)
  have fresh: "fresh_id crowded_thread = 32"
    by (simp add: fresh_id_def crowded_thread_def late_note_def fold_max_chatter)
  have "comments (snd (postPRComment pr_run ''token'' short_report (start crowded_thread)))
       = crowded_thread @ [\<lparr>comment_id = 32, author = ''github-actions[bot]'', body = short_report\<rparr>]"
    by (simp add: postPRComment_creates [OF pr_run_env(1,2,4) none] fresh pr_run_env(5))
  with only show ?thesis
    by (simp add: late_note_def)
qed

section \<open>The deadline of the health request\<close>

lemma unanswered_aborted:
  "unanswered (health_exchange env) 30000 \<Longrightarrow> health_request env = TimerFired"
  by (simp add: unanswered_def health_request_def race_def split: option.splits)




end
